theory Spec2Isabelle
  imports Main "HOL-Library.Word" "HOL-Library.Multiset"
begin

section \<open>Data model of the instance service\<close>

text \<open>
  The embedding follows \<^verbatim>\<open>server/service/instance.go\<close>. Protobuf messages are records,
  Go's \<^verbatim>\<open>int32\<close> is a 32-bit word read as two's complement, \<^verbatim>\<open>int64\<close> lease ids and
  TTLs are integers (no arithmetic is done on them), and every external collaborator
  (validation, the service store, the quota plugin, the registry backend, the find
  cache) is a field of a record of dependencies.
\<close>

type_synonym int32 = "32 word"

text \<open>Modelled from the spec: the health-check mode enumeration (HEARTBEAT, PLATFORM,
  PUSH) of the protobuf package, which is not part of the source file.\<close>

datatype CheckMode = CHECK_BY_HEARTBEAT | CHECK_BY_PLATFORM | CHECK_BY_PUSH

record pb_HealthCheck =
  Mode :: CheckMode
  Interval :: int32
  Times :: int32

record pb_MicroServiceInstance =
  InstanceId :: string
  ServiceId :: string
  Endpoints :: "string list"
  HostName :: string
  Status :: string
  HealthCheck :: "pb_HealthCheck option"
  Timestamp :: string
  ModTimestamp :: string
  Version :: string

record pb_MicroService =
  ServiceId_svc :: string
  Environment_svc :: string
  AppId_svc :: string
  ServiceName_svc :: string
  Version_svc :: string

text \<open>Modelled from the spec: the error kinds of section 7 (the error package is not part
  of the source file); \<open>Response_SUCCESS\<close> is the code of a successful response.\<close>

datatype ErrCode =
    Response_SUCCESS
  | ErrInvalidParams
  | ErrServiceNotExists
  | ErrInstanceNotExists
  | ErrTagNotExists
  | ErrEndpointAlreadyExists
  | ErrNotEnoughQuota
  | ErrForbidden
  | ErrInternal
  | ErrUnavailableBackend

record scerr_Error =
  Code :: ErrCode
  Message :: string

text \<open>Modelled from the spec: an error carries its kind and a message (section 7); the
  constructor of the error package fills the two.\<close>

definition NewError :: "ErrCode \<Rightarrow> string \<Rightarrow> scerr_Error" where
  "NewError c m = \<lparr>Code = c, Message = m\<rparr>"

text \<open>Modelled from the spec: an error is internal exactly when its kind is Internal or
  Unavailable (section 7); the method itself lives in the error package.\<close>

definition InternalError :: "scerr_Error \<Rightarrow> bool" where
  "InternalError e = (Code e = ErrInternal \<or> Code e = ErrUnavailableBackend)"

text \<open>A Go \<^verbatim>\<open>error\<close> value: either a registry error or a plain error with its text.\<close>

datatype GoError = ScErr scerr_Error | PlainErr string

record pb_Response =
  Code_resp :: ErrCode
  Message_resp :: string

text \<open>Modelled from the spec: a response carries a code and a message (section 7); the
  two constructors of the protobuf package fill them from their arguments or from a
  registry error.\<close>

definition CreateResponse :: "ErrCode \<Rightarrow> string \<Rightarrow> pb_Response" where
  "CreateResponse c m = \<lparr>Code_resp = c, Message_resp = m\<rparr>"

definition CreateResponseWithSCErr :: "scerr_Error \<Rightarrow> pb_Response" where
  "CreateResponseWithSCErr e = \<lparr>Code_resp = Code e, Message_resp = Message e\<rparr>"

text \<open>A call either returns or faults (a nil dereference).\<close>

datatype 'a outcome = Return 'a | Panic

subsection \<open>Request context\<close>

datatype CtxKey =
    CTX_DOMAIN
  | CTX_PROJECT
  | CTX_TARGET_DOMAIN
  | CTX_TARGET_PROJECT
  | CTX_REQUEST_REVISION
  | CTX_RESPONSE_REVISION

type_synonym Context = "CtxKey \<rightharpoonup> string"

text \<open>Modelled from the spec: the context accessors of the util package (tenant domain,
  project, target domain/project and revisions are context metadata, section 6). A value
  that is absent reads as the empty string, as a failed Go type assertion does.\<close>

definition ctx_string :: "Context \<Rightarrow> CtxKey \<Rightarrow> string" where
  "ctx_string ctx k = (case ctx k of None \<Rightarrow> [] | Some v \<Rightarrow> v)"

definition SetContext :: "Context \<Rightarrow> CtxKey \<Rightarrow> string \<Rightarrow> Context" where
  "SetContext ctx k v = ctx(k \<mapsto> v)"

definition ParseDomain :: "Context \<Rightarrow> string" where
  "ParseDomain ctx = ctx_string ctx CTX_DOMAIN"

definition ParseProject :: "Context \<Rightarrow> string" where
  "ParseProject ctx = ctx_string ctx CTX_PROJECT"

definition ParseDomainProject :: "Context \<Rightarrow> string" where
  "ParseDomainProject ctx = ParseDomain ctx @ ''/'' @ ParseProject ctx"

definition ParseTargetDomainProject :: "Context \<Rightarrow> string" where
  "ParseTargetDomainProject ctx =
     ctx_string ctx CTX_TARGET_DOMAIN @ ''/'' @ ctx_string ctx CTX_TARGET_PROJECT"

definition SetTargetDomainProject :: "Context \<Rightarrow> string \<Rightarrow> string \<Rightarrow> Context" where
  "SetTargetDomainProject ctx domain project =
     SetContext (SetContext ctx CTX_TARGET_DOMAIN domain) CTX_TARGET_PROJECT project"

subsection \<open>Decimal printing\<close>

text \<open>\<^verbatim>\<open>strconv.FormatInt(n, 10)\<close> and \<^verbatim>\<open>fmt.Sprintf("%d", n)\<close>.\<close>

fun string_of_nat :: "nat \<Rightarrow> string" where
  "string_of_nat n =
     (if n < 10 then [''0123456789'' ! n]
      else string_of_nat (n div 10) @ [''0123456789'' ! (n mod 10)])"

declare string_of_nat.simps [simp del]

definition FormatInt :: "int \<Rightarrow> string" where
  "FormatInt i = (if i < 0 then CHR ''-'' # string_of_nat (nat (- i)) else string_of_nat (nat i))"

subsection \<open>Registry backend operations and quota\<close>

text \<open>Modelled from the spec: the operations handed to the backend (section 4.1): a put
  carries a key, a value and a lease, a compare is a predicate on the version of a key;
  and the quota resource of section 4.8 (tenant, service id, size). The builders of the
  registry and quota packages fill these records.\<close>

datatype ActionType = Get | Put | Delete

record PluginOp =
  Action :: ActionType
  Key :: string
  Value :: string
  Lease :: int

definition OpPut :: "string \<Rightarrow> string \<Rightarrow> int \<Rightarrow> PluginOp" where
  "OpPut k v l = \<lparr>Action = Put, Key = k, Value = v, Lease = l\<rparr>"

datatype CompareType = CMP_VERSION

datatype CompareResult = CMP_EQUAL | CMP_GREATER | CMP_LESS | CMP_NOT_EQUAL

record CompareOp =
  Key_cmp :: string
  Type_cmp :: CompareType
  Result_cmp :: CompareResult
  Value_cmp :: int

definition OpCmp :: "string \<times> CompareType \<Rightarrow> CompareResult \<Rightarrow> int \<Rightarrow> CompareOp" where
  "OpCmp kt r v = \<lparr>Key_cmp = fst kt, Type_cmp = snd kt, Result_cmp = r, Value_cmp = v\<rparr>"

definition CmpVer :: "string \<Rightarrow> string \<times> CompareType" where
  "CmpVer k = (k, CMP_VERSION)"

record ApplyQuotaResource =
  DomainProject :: string
  ServiceId_res :: string
  QuotaSize :: int

definition NewApplyQuotaResource :: "string \<Rightarrow> string \<Rightarrow> int \<Rightarrow> ApplyQuotaResource" where
  "NewApplyQuotaResource dp sid n = \<lparr>DomainProject = dp, ServiceId_res = sid, QuotaSize = n\<rparr>"

text \<open>The quota plugin's answer, of which Register reads the error of the application.\<close>

record ApplyQuotaResult =
  Err :: "scerr_Error option"

text \<open>Everything the service does to its collaborators, in order.\<close>

datatype Event =
    EvApply4Quotas ApplyQuotaResource
  | EvQuotaClose
  | EvReportUsedQuota "ApplyQuotaResult option"
  | EvLeaseGrant int "string + int"
  | EvLeaseRevoke int
  | EvTxnWithCmp "PluginOp list" "CompareOp list" "string + bool"

record pb_RegisterInstanceRequest =
  Instance :: pb_MicroServiceInstance

record pb_RegisterInstanceResponse =
  Response :: pb_Response
  InstanceId_resp :: string

record pb_UnregisterInstanceRequest =
  ServiceId_unreg :: string
  InstanceId_unreg :: string

record pb_HeartbeatSetElement =
  ServiceId_hb :: string
  InstanceId_hb :: string

record pb_InstanceHbRst =
  ServiceId_rst :: string
  InstanceId_rst :: string
  ErrMessage :: string

record pb_HeartbeatSetRequest =
  Instances_req :: "pb_HeartbeatSetElement list"

record pb_HeartbeatSetResponse =
  Response_hbs :: pb_Response
  Instances_hbs :: "pb_InstanceHbRst list"

record pb_MicroServiceKey =
  Tenant :: string
  Environment :: string
  AppId :: string
  ServiceName :: string
  Alias :: string
  Version_key :: string

record pb_FindInstancesRequest =
  ConsumerServiceId :: string
  AppId_req :: string
  ServiceName_req :: string
  VersionRule :: string
  Environment_req :: string
  Tags :: "string list"

record VersionRuleCacheItem =
  ServiceIds :: "string list"
  Instances_item :: "pb_MicroServiceInstance list"
  Rev :: string

text \<open>A nil slice and an empty slice are both the empty list.\<close>

record pb_FindInstancesResponse =
  Response_find :: pb_Response
  Instances_find :: "pb_MicroServiceInstance list"

subsection \<open>Dependencies\<close>

text \<open>The world \<open>'w\<close> is whatever the collaborators keep: the reads take it, the
  writes return it updated. A backend call answers \<open>Inl\<close> with the error text when it
  fails; a call that returns a Go error answers its text, \<open>None\<close> for nil.
  \<open>ReportUsedQuota\<close> is the method of the quota result that Register calls on its
  variable \<^verbatim>\<open>reporter\<close>, which is nil (\<open>None\<close>) when no quota was applied for:
  the body of the method is not part of the source file, so whether it returns, with an
  error or without, or faults is left to the dependency.
  \<open>Service_Environment\<close> is the environment of the registry's own service record,
  and \<open>Arrival\<close> is the order in which the results of the concurrent heartbeat
  tasks reach the result channel.\<close>

record 'w deps =
  Validate :: "pb_RegisterInstanceRequest \<Rightarrow> string option"
  InstanceExist :: "'w \<Rightarrow> Context \<Rightarrow> pb_MicroServiceInstance \<Rightarrow> string \<times> scerr_Error option"
  GetInstanceId :: "Context \<Rightarrow> string"
  NowUnix :: int
  GetService :: "'w \<Rightarrow> Context \<Rightarrow> string \<Rightarrow> string \<Rightarrow> pb_MicroService option \<times> string option"
  IsSCInstance :: "Context \<Rightarrow> bool"
  Apply4Quotas :: "'w \<Rightarrow> Context \<Rightarrow> ApplyQuotaResource \<Rightarrow> ApplyQuotaResult"
  ReportUsedQuota :: "Context \<Rightarrow> ApplyQuotaResult option \<Rightarrow> string option outcome"
  Marshal :: "pb_MicroServiceInstance \<Rightarrow> string + string"
  LeaseGrant :: "'w \<Rightarrow> int \<Rightarrow> (string + int) \<times> 'w"
  TxnWithCmp :: "'w \<Rightarrow> PluginOp list \<Rightarrow> CompareOp list \<Rightarrow> (string + bool) \<times> 'w"
  ValidateUnregister :: "pb_UnregisterInstanceRequest \<Rightarrow> string option"
  InstanceExistById :: "'w \<Rightarrow> Context \<Rightarrow> string \<Rightarrow> string \<Rightarrow> string \<Rightarrow> bool \<times> string option"
  GetLeaseId :: "'w \<Rightarrow> Context \<Rightarrow> string \<Rightarrow> string \<Rightarrow> string \<Rightarrow> int \<times> string option"
  LeaseRevoke :: "'w \<Rightarrow> int \<Rightarrow> string option \<times> 'w"
  ValidateFind :: "pb_FindInstancesRequest \<Rightarrow> string option"
  IsShared :: "pb_MicroServiceKey \<Rightarrow> bool"
  Service_Environment :: string
  FindInstances_Get ::
    "'w \<Rightarrow> Context \<Rightarrow> pb_MicroService \<Rightarrow> pb_MicroServiceKey \<Rightarrow> string list \<Rightarrow> string
       \<Rightarrow> VersionRuleCacheItem option \<times> string option"
  ExistVersionRule :: "'w \<Rightarrow> Context \<Rightarrow> string \<Rightarrow> pb_MicroServiceKey \<Rightarrow> bool"
  MicroServiceToKey :: "string \<Rightarrow> pb_MicroService \<Rightarrow> pb_MicroServiceKey"
  AddServiceVersionRule ::
    "'w \<Rightarrow> Context \<Rightarrow> string \<Rightarrow> pb_MicroService \<Rightarrow> pb_MicroServiceKey \<Rightarrow> string option \<times> 'w"
  HeartbeatUtil :: "'w \<Rightarrow> Context \<Rightarrow> string \<Rightarrow> string \<Rightarrow> string \<Rightarrow> string option"
  Arrival :: "pb_InstanceHbRst list \<Rightarrow> pb_InstanceHbRst list"

text \<open>Modelled from the spec: the registry defaults of the core package (interval 30,
  retries 3, section 4.3), the default status UP, and the key schema of section 4.2
  (the root prefix, which the spec elides, is left out).\<close>

definition REGISTRY_DEFAULT_LEASE_RENEWALINTERVAL :: int32 where
  "REGISTRY_DEFAULT_LEASE_RENEWALINTERVAL = 30"

definition REGISTRY_DEFAULT_LEASE_RETRYTIMES :: int32 where
  "REGISTRY_DEFAULT_LEASE_RETRYTIMES = 3"

definition MSI_UP :: string where
  "MSI_UP = ''UP''"

definition GenerateServiceKey :: "string \<Rightarrow> string \<Rightarrow> string" where
  "GenerateServiceKey domainProject serviceId =
     ''/service/'' @ domainProject @ ''/'' @ serviceId"

definition GenerateInstanceKey :: "string \<Rightarrow> string \<Rightarrow> string \<Rightarrow> string" where
  "GenerateInstanceKey domainProject serviceId instanceId =
     ''/inst/'' @ domainProject @ ''/'' @ serviceId @ ''/'' @ instanceId"

definition GenerateInstanceLeaseKey :: "string \<Rightarrow> string \<Rightarrow> string \<Rightarrow> string" where
  "GenerateInstanceLeaseKey domainProject serviceId instanceId =
     ''/lease/'' @ domainProject @ ''/'' @ serviceId @ ''/'' @ instanceId"

definition MaxInt32 :: int where
  "MaxInt32 = 2147483647"

section \<open>preProcessRegisterInstance\<close>

text \<open>The health-check part of the function (source lines 56 to 78): the error of the
  HEARTBEAT case, or the instance with its health check settled.\<close>

definition preProcessHealthCheck :: "pb_MicroServiceInstance \<Rightarrow> scerr_Error + pb_MicroServiceInstance" where
  "preProcessHealthCheck instance =
     (let renewalInterval = REGISTRY_DEFAULT_LEASE_RENEWALINTERVAL;
          retryTimes = REGISTRY_DEFAULT_LEASE_RETRYTIMES
      in case HealthCheck instance of
           None \<Rightarrow>
             Inr (instance\<lparr>HealthCheck :=
               Some \<lparr>Mode = CHECK_BY_HEARTBEAT, Interval = renewalInterval, Times = retryTimes\<rparr>\<rparr>)
         | Some hc \<Rightarrow>
             (case Mode hc of
                CHECK_BY_HEARTBEAT \<Rightarrow>
                  (let d = Interval hc * (Times hc + 1)
                   in if sint d \<le> 0 \<or> sint d \<ge> MaxInt32
                      then Inl (NewError ErrInvalidParams
                                  ''Invalid 'healthCheck' settings in request body.'')
                      else Inr instance)
              | CHECK_BY_PLATFORM \<Rightarrow>
                  Inr (instance\<lparr>HealthCheck :=
                    Some (hc\<lparr>Interval := renewalInterval, Times := retryTimes\<rparr>)\<rparr>)
              | CHECK_BY_PUSH \<Rightarrow> Inr instance))"

text \<open>Source lines 45 to 54: default status, generated instance id, timestamps.\<close>

definition preProcessStamp ::
  "'w deps \<Rightarrow> Context \<Rightarrow> pb_MicroServiceInstance \<Rightarrow> pb_MicroServiceInstance" where
  "preProcessStamp d ctx instance0 =
     (let instance1 = (if length (Status instance0) = 0
                       then instance0\<lparr>Status := MSI_UP\<rparr> else instance0);
          instance2 = (if length (InstanceId instance1) = 0
                       then instance1\<lparr>InstanceId := GetInstanceId d ctx\<rparr> else instance1);
          instance3 = instance2\<lparr>Timestamp := FormatInt (NowUnix d)\<rparr>
      in instance3\<lparr>ModTimestamp := Timestamp instance3\<rparr>)"

text \<open>The whole function. The instance is changed in place, so the caller sees the
  changes made before an error too: the result is the instance as left and the error.\<close>

definition preProcessRegisterInstance ::
  "'w deps \<Rightarrow> 'w \<Rightarrow> Context \<Rightarrow> pb_MicroServiceInstance
     \<Rightarrow> pb_MicroServiceInstance \<times> scerr_Error option" where
  "preProcessRegisterInstance d w ctx instance0 =
     (let instance4 = preProcessStamp d ctx instance0
      in case preProcessHealthCheck instance4 of
           Inl e \<Rightarrow> (instance4, Some e)
         | Inr instance5 \<Rightarrow>
             (let domainProject = ParseDomainProject ctx
              in case GetService d w ctx domainProject (ServiceId instance5) of
                   (None, err) \<Rightarrow>
                     (instance5, Some (NewError ErrServiceNotExists
                                         ''Invalid 'serviceId' in request body.''))
                 | (Some service, Some err) \<Rightarrow>
                     (instance5, Some (NewError ErrServiceNotExists
                                         ''Invalid 'serviceId' in request body.''))
                 | (Some service, None) \<Rightarrow>
                     (instance5\<lparr>Version := Version_svc service\<rparr>, None)))"

section \<open>Register\<close>

definition RegisterFailure :: "ErrCode \<Rightarrow> string \<Rightarrow> pb_RegisterInstanceResponse" where
  "RegisterFailure c m = \<lparr>Response = CreateResponse c m, InstanceId_resp = []\<rparr>"

text \<open>Source lines 177 to 190: the two puts and the compare of the transaction.\<close>

definition Register_opts ::
  "Context \<Rightarrow> pb_MicroServiceInstance \<Rightarrow> string \<Rightarrow> int \<Rightarrow> PluginOp list" where
  "Register_opts ctx instance data leaseID =
     (let domainProject = ParseDomainProject ctx;
          instanceId = InstanceId instance;
          key = GenerateInstanceKey domainProject (ServiceId instance) instanceId;
          hbKey = GenerateInstanceLeaseKey domainProject (ServiceId instance) instanceId
      in [OpPut key data leaseID, OpPut hbKey (FormatInt leaseID) leaseID])"

definition Register_cmps :: "Context \<Rightarrow> pb_MicroServiceInstance \<Rightarrow> CompareOp list" where
  "Register_cmps ctx instance =
     [OpCmp (CmpVer (GenerateServiceKey (ParseDomainProject ctx) (ServiceId instance)))
        CMP_NOT_EQUAL 0]"

text \<open>Source lines 157 to 220: encoding, lease grant, the transaction and the quota
  report. The events are those of this part, in order.\<close>

definition Register_commit ::
  "'w deps \<Rightarrow> Context \<Rightarrow> pb_MicroServiceInstance \<Rightarrow> int \<Rightarrow> ApplyQuotaResult option \<Rightarrow> 'w
     \<Rightarrow> (pb_RegisterInstanceResponse \<times> GoError option) outcome \<times> 'w \<times> Event list" where
  "Register_commit d ctx instance ttl reporter w =
     (let instanceId = InstanceId instance
      in case Marshal d instance of
           Inl err \<Rightarrow> (Return (RegisterFailure ErrInternal err, Some (PlainErr err)), w, [])
         | Inr data \<Rightarrow>
             (case LeaseGrant d w ttl of
                (Inl err, w1) \<Rightarrow>
                  (Return (RegisterFailure ErrUnavailableBackend err, Some (PlainErr err)),
                   w1, [EvLeaseGrant ttl (Inl err)])
              | (Inr leaseID, w1) \<Rightarrow>
                  (let opts = Register_opts ctx instance data leaseID;
                       cmps = Register_cmps ctx instance;
                       granted = EvLeaseGrant ttl (Inr leaseID)
                   in case TxnWithCmp d w1 opts cmps of
                        (Inl err, w2) \<Rightarrow>
                          (Return (RegisterFailure ErrUnavailableBackend err, Some (PlainErr err)),
                           w2, [granted, EvTxnWithCmp opts cmps (Inl err)])
                      | (Inr succeeded, w2) \<Rightarrow>
                          if \<not> succeeded
                          then (Return (RegisterFailure ErrServiceNotExists ''Service does not exist.'',
                                        None),
                                w2, [granted, EvTxnWithCmp opts cmps (Inr succeeded)])
                          else (case ReportUsedQuota d ctx reporter of
                                  Panic \<Rightarrow>
                                    (Panic, w2, [granted, EvTxnWithCmp opts cmps (Inr succeeded),
                                                 EvReportUsedQuota reporter])
                                | Return err \<Rightarrow>
                                    (Return (\<lparr>Response = CreateResponse Response_SUCCESS
                                                 ''Register service instance successfully.'',
                                               InstanceId_resp = instanceId\<rparr>, None),
                                     w2, [granted, EvTxnWithCmp opts cmps (Inr succeeded),
                                          EvReportUsedQuota reporter])))))"

text \<open>Source lines 130 to 155: the TTL and the quota application. The variable
  \<open>reporter\<close> stays nil when the caller is the registry itself, and holds the quota
  plugin's answer otherwise; the deferred close of that answer runs when Register
  returns.\<close>

definition Register_reporter ::
  "'w deps \<Rightarrow> 'w \<Rightarrow> Context \<Rightarrow> pb_MicroServiceInstance \<Rightarrow> ApplyQuotaResult option" where
  "Register_reporter d w ctx instance =
     (if \<not> IsSCInstance d ctx
      then Some (Apply4Quotas d w ctx
                   (NewApplyQuotaResource (ParseDomainProject ctx) (ServiceId instance) 1))
      else None)"

definition Register_admit ::
  "'w deps \<Rightarrow> Context \<Rightarrow> pb_MicroServiceInstance \<Rightarrow> 'w
     \<Rightarrow> (pb_RegisterInstanceResponse \<times> GoError option) outcome \<times> 'w \<times> Event list" where
  "Register_admit d ctx instance w =
     (case HealthCheck instance of
        None \<Rightarrow> (Panic, w, [])
      | Some hc \<Rightarrow>
          (let ttl = sint (Interval hc * (Times hc + 1));
               domainProject = ParseDomainProject ctx
           in case Register_reporter d w ctx instance of
                Some reporter \<Rightarrow>
                  (let res = NewApplyQuotaResource domainProject (ServiceId instance) 1
                   in case Err reporter of
                        Some e \<Rightarrow>
                          (let response = \<lparr>Response = CreateResponseWithSCErr e,
                                            InstanceId_resp = []\<rparr>
                           in (Return (response, if InternalError e then Some (ScErr e) else None),
                               w, [EvApply4Quotas res, EvQuotaClose]))
                      | None \<Rightarrow>
                          (case Register_commit d ctx instance ttl (Some reporter) w of
                             (r, w', evs) \<Rightarrow> (r, w', EvApply4Quotas res # evs @ [EvQuotaClose])))
              | None \<Rightarrow> Register_commit d ctx instance ttl None w))"

definition Register ::
  "'w deps \<Rightarrow> Context \<Rightarrow> pb_RegisterInstanceRequest \<Rightarrow> 'w
     \<Rightarrow> (pb_RegisterInstanceResponse \<times> GoError option) outcome \<times> 'w \<times> Event list" where
  "Register d ctx in_req w =
     (case Validate d in_req of
        Some err \<Rightarrow> (Return (RegisterFailure ErrInvalidParams err, None), w, [])
      | None \<Rightarrow>
          (let instance = Instance in_req
           in case InstanceExist d w ctx instance of
                (oldInstanceId, Some checkErr) \<Rightarrow>
                  (let resp = \<lparr>Response = CreateResponseWithSCErr checkErr, InstanceId_resp = []\<rparr>
                   in (Return (resp, if InternalError checkErr then Some (ScErr checkErr) else None),
                       w, []))
              | (oldInstanceId, None) \<Rightarrow>
                  if length oldInstanceId > 0
                  then (Return (\<lparr>Response = CreateResponse Response_SUCCESS ''instance already exists'',
                                  InstanceId_resp = oldInstanceId\<rparr>, None), w, [])
                  else (case preProcessRegisterInstance d w ctx instance of
                          (instance', Some err) \<Rightarrow>
                            (Return (\<lparr>Response = CreateResponseWithSCErr err,
                                       InstanceId_resp = []\<rparr>, None), w, [])
                        | (instance', None) \<Rightarrow> Register_admit d ctx instance' w)))"

section \<open>Unregister\<close>

text \<open>Source lines 272 to 286. The answer is the error and whether it is an internal one.\<close>

definition revokeInstance ::
  "'w deps \<Rightarrow> 'w \<Rightarrow> Context \<Rightarrow> string \<Rightarrow> string \<Rightarrow> string
     \<Rightarrow> (string option \<times> bool) \<times> 'w \<times> Event list" where
  "revokeInstance d w ctx domainProject serviceId instanceId =
     (case GetLeaseId d w ctx domainProject serviceId instanceId of
        (leaseID, Some err) \<Rightarrow> ((Some err, True), w, [])
      | (leaseID, None) \<Rightarrow>
          if leaseID = - 1
          then ((Some ''instance's leaseId not exist.'', False), w, [])
          else (case LeaseRevoke d w leaseID of
                  (Some err, w') \<Rightarrow> ((Some err, True), w', [EvLeaseRevoke leaseID])
                | (None, w') \<Rightarrow> ((None, False), w', [EvLeaseRevoke leaseID])))"

text \<open>Source lines 223 to 270.\<close>

definition Unregister ::
  "'w deps \<Rightarrow> Context \<Rightarrow> pb_UnregisterInstanceRequest \<Rightarrow> 'w
     \<Rightarrow> (pb_Response \<times> GoError option) \<times> 'w \<times> Event list" where
  "Unregister d ctx in_req w =
     (case ValidateUnregister d in_req of
        Some err \<Rightarrow> ((CreateResponse ErrInvalidParams err, None), w, [])
      | None \<Rightarrow>
          (let domainProject = ParseDomainProject ctx;
               serviceId = ServiceId_unreg in_req;
               instanceId = InstanceId_unreg in_req
           in case InstanceExistById d w ctx domainProject serviceId instanceId of
                (isExist, Some err) \<Rightarrow>
                  ((CreateResponse ErrInternal err, Some (PlainErr err)), w, [])
              | (isExist, None) \<Rightarrow>
                  if \<not> isExist
                  then ((CreateResponse ErrInstanceNotExists ''Service instance does not exist.'',
                         None), w, [])
                  else (case revokeInstance d w ctx domainProject serviceId instanceId of
                          ((Some err, isInnerErr), w', evs) \<Rightarrow>
                            if isInnerErr
                            then ((CreateResponse ErrUnavailableBackend err, Some (PlainErr err)),
                                  w', evs)
                            else ((CreateResponse ErrInstanceNotExists err, None), w', evs)
                        | ((None, isInnerErr), w', evs) \<Rightarrow>
                            ((CreateResponse Response_SUCCESS
                                ''Unregister service instance successfully.'', None), w', evs))))"

section \<open>HeartbeatSet\<close>

text \<open>Source lines 339 to 348: the loop over the request. It answers the final
  \<open>noMultiCounter\<close> and the elements for which a task was started, in order.\<close>

fun HeartbeatSet_schedule ::
  "(string \<rightharpoonup> bool) \<Rightarrow> nat \<Rightarrow> pb_HeartbeatSetElement list
     \<Rightarrow> nat \<times> pb_HeartbeatSetElement list" where
  "HeartbeatSet_schedule existFlag noMultiCounter [] = (noMultiCounter, [])"
| "HeartbeatSet_schedule existFlag noMultiCounter (heartbeatElement # rest) =
     (case existFlag (ServiceId_hb heartbeatElement @ InstanceId_hb heartbeatElement) of
        Some ok \<Rightarrow> HeartbeatSet_schedule existFlag noMultiCounter rest
      | None \<Rightarrow>
          (case HeartbeatSet_schedule
                  (existFlag(ServiceId_hb heartbeatElement @ InstanceId_hb heartbeatElement \<mapsto> True))
                  (noMultiCounter + 1) rest of
             (n, tasks) \<Rightarrow> (n, heartbeatElement # tasks)))"

text \<open>The result one task sends to the channel. The heartbeat itself, which renews the
  lease of the instance, is \<open>HeartbeatUtil\<close> of the dependencies.\<close>

definition getHeartbeatFunc ::
  "'w deps \<Rightarrow> 'w \<Rightarrow> Context \<Rightarrow> string \<Rightarrow> pb_HeartbeatSetElement \<Rightarrow> pb_InstanceHbRst" where
  "getHeartbeatFunc d w ctx domainProject element =
     (let hbRst = \<lparr>ServiceId_rst = ServiceId_hb element,
                    InstanceId_rst = InstanceId_hb element,
                    ErrMessage = []\<rparr>
      in case HeartbeatUtil d w ctx domainProject (ServiceId_hb element) (InstanceId_hb element) of
           Some err \<Rightarrow> hbRst\<lparr>ErrMessage := err\<rparr>
         | None \<Rightarrow> hbRst)"

text \<open>Source lines 353 to 364: the loop over the result channel, whose content is the
  last argument. The loop ends when the channel is closed and drained; on an open, empty
  channel it waits for ever, which is the answer \<open>None\<close>. The counter
  \<^verbatim>\<open>count\<close> of the source is \<open>cnt\<close> here.\<close>

fun HeartbeatSet_collect ::
  "bool \<Rightarrow> nat \<Rightarrow> nat \<Rightarrow> bool \<Rightarrow> bool \<Rightarrow> pb_InstanceHbRst list \<Rightarrow> pb_InstanceHbRst list
     \<Rightarrow> (nat \<times> bool \<times> bool \<times> pb_InstanceHbRst list) option" where
  "HeartbeatSet_collect closed noMultiCounter cnt successFlag failFlag instanceHbRstArr [] =
     (if closed then Some (cnt, successFlag, failFlag, instanceHbRstArr) else None)"
| "HeartbeatSet_collect closed noMultiCounter cnt successFlag failFlag instanceHbRstArr
     (heartbeat # channel) =
     (let cnt' = cnt + 1;
          failFlag' = (if length (ErrMessage heartbeat) \<noteq> 0 then True else failFlag);
          successFlag' = (if length (ErrMessage heartbeat) \<noteq> 0 then successFlag else True);
          instanceHbRstArr' = instanceHbRstArr @ [heartbeat];
          closed' = (if cnt' = noMultiCounter then True else closed)
      in HeartbeatSet_collect closed' noMultiCounter cnt' successFlag' failFlag'
           instanceHbRstArr' channel)"

definition HeartbeatSet ::
  "'w deps \<Rightarrow> 'w \<Rightarrow> Context \<Rightarrow> pb_HeartbeatSetRequest \<Rightarrow> pb_HeartbeatSetResponse option" where
  "HeartbeatSet d w ctx in_req =
     (if length (Instances_req in_req) = 0
      then Some \<lparr>Response_hbs = CreateResponse ErrInvalidParams ''Request format invalid.'',
                  Instances_hbs = []\<rparr>
      else (let domainProject = ParseDomainProject ctx
            in case HeartbeatSet_schedule Map.empty 0 (Instances_req in_req) of
                 (noMultiCounter, tasks) \<Rightarrow>
                   (case HeartbeatSet_collect False noMultiCounter 0 False False []
                           (Arrival d (map (getHeartbeatFunc d w ctx domainProject) tasks)) of
                      None \<Rightarrow> None
                    | Some (cnt, successFlag, failFlag, instanceHbRstArr) \<Rightarrow>
                        if \<not> failFlag \<and> successFlag
                        then Some \<lparr>Response_hbs = CreateResponse Response_SUCCESS
                                                     ''Heartbeat set successfully.'',
                                    Instances_hbs = instanceHbRstArr\<rparr>
                        else Some \<lparr>Response_hbs = CreateResponse ErrInstanceNotExists
                                                     ''Heartbeat set failed.'',
                                    Instances_hbs = instanceHbRstArr\<rparr>)))"

section \<open>Find\<close>

definition FindFailure :: "ErrCode \<Rightarrow> string \<Rightarrow> pb_FindInstancesResponse" where
  "FindFailure c m = \<lparr>Response_find = CreateResponse c m, Instances_find = []\<rparr>"

text \<open>Source lines 516 to 534: the consumer's service record, or the response and error
  of the early return.\<close>

definition Find_consumer ::
  "'w deps \<Rightarrow> 'w \<Rightarrow> Context \<Rightarrow> pb_FindInstancesRequest
     \<Rightarrow> (pb_FindInstancesResponse \<times> GoError option) + pb_MicroService" where
  "Find_consumer d w ctx in_req =
     (let domainProject = ParseDomainProject ctx;
          service = \<lparr>ServiceId_svc = [], Environment_svc = Environment_req in_req,
                      AppId_svc = [], ServiceName_svc = [], Version_svc = []\<rparr>
      in if length (ConsumerServiceId in_req) > 0
         then (case GetService d w ctx domainProject (ConsumerServiceId in_req) of
                 (service', Some err) \<Rightarrow> Inl (FindFailure ErrInternal err, Some (PlainErr err))
               | (None, None) \<Rightarrow>
                   Inl (FindFailure ErrServiceNotExists
                          (''Consumer['' @ ConsumerServiceId in_req @ ''] does not exist.''), None)
               | (Some service', None) \<Rightarrow> Inr service')
         else Inr service)"

text \<open>Source lines 537 to 544: the provider key as first built.\<close>

definition Find_provider_key ::
  "Context \<Rightarrow> pb_FindInstancesRequest \<Rightarrow> pb_MicroService \<Rightarrow> pb_MicroServiceKey" where
  "Find_provider_key ctx in_req service =
     \<lparr>Tenant = ParseTargetDomainProject ctx,
      Environment = Environment_svc service,
      AppId = AppId_req in_req,
      ServiceName = ServiceName_req in_req,
      Alias = ServiceName_req in_req,
      Version_key = VersionRule in_req\<rparr>"

text \<open>Source lines 545 to 565: the provider key and the context used from there on.\<close>

definition Find_provider ::
  "'w deps \<Rightarrow> Context \<Rightarrow> pb_FindInstancesRequest \<Rightarrow> pb_MicroService
     \<Rightarrow> Context \<times> pb_MicroServiceKey" where
  "Find_provider d ctx in_req service =
     (let provider = Find_provider_key ctx in_req service
      in if IsShared d provider
         then (ctx, provider\<lparr>Environment := Service_Environment d\<rparr>)
         else (let ctx' = SetTargetDomainProject ctx (ParseDomain ctx) (ParseProject ctx)
               in (ctx', provider\<lparr>Tenant := ParseTargetDomainProject ctx'\<rparr>)))"

text \<open>The closure \<^verbatim>\<open>findFlag\<close> of source lines 549 to 564, which names consumer and
  provider in the messages.\<close>

definition findFlag ::
  "'w deps \<Rightarrow> Context \<Rightarrow> pb_FindInstancesRequest \<Rightarrow> pb_MicroService \<Rightarrow> pb_MicroServiceKey
     \<Rightarrow> string" where
  "findFlag d ctx in_req service provider =
     ''Consumer['' @ ConsumerServiceId in_req @ ''][''
       @ Environment_svc service @ ''/'' @ AppId_svc service @ ''/''
       @ ServiceName_svc service @ ''/'' @ Version_svc service
       @ (if IsShared d (Find_provider_key ctx in_req service)
          then ''] find shared provider['' else ''] find provider['')
       @ Environment provider @ ''/'' @ AppId provider @ ''/''
       @ ServiceName provider @ ''/'' @ Version_key provider @ '']''"

definition reshapeProviderKey ::
  "'w deps \<Rightarrow> 'w \<Rightarrow> Context \<Rightarrow> pb_MicroServiceKey \<Rightarrow> string
     \<Rightarrow> pb_MicroServiceKey option \<times> string option" where
  "reshapeProviderKey d w ctx provider providerId =
     (case GetService d w ctx (Tenant provider) providerId of
        (None, err) \<Rightarrow> (None, err)
      | (Some providerService, err) \<Rightarrow>
          (let versionRule = Version_key provider;
               provider' = MicroServiceToKey d (Tenant provider) providerService
           in (Some (provider'\<lparr>Version_key := versionRule\<rparr>), None)))"

text \<open>Source lines 585 to 605: recording the dependency. \<open>Inr\<close> is the world to go on
  with, \<open>Inl\<close> an early end. When the provider cannot be reshaped, the variable the
  message closure reads has been set to nil, and building the message faults.\<close>

definition Find_dependency ::
  "'w deps \<Rightarrow> 'w \<Rightarrow> Context \<Rightarrow> pb_FindInstancesRequest \<Rightarrow> pb_MicroService
     \<Rightarrow> pb_MicroServiceKey \<Rightarrow> VersionRuleCacheItem
     \<Rightarrow> ((pb_FindInstancesResponse \<times> GoError option) outcome \<times> 'w) + 'w" where
  "Find_dependency d w ctx in_req service provider item =
     (case ServiceIds item of
        [] \<Rightarrow> Inr w
      | providerId # others \<Rightarrow>
          if length (ConsumerServiceId in_req) > 0
             \<and> \<not> ExistVersionRule d w ctx (ConsumerServiceId in_req) provider
          then (case reshapeProviderKey d w ctx provider providerId of
                  (None, err) \<Rightarrow> Inl (Panic, w)
                | (Some provider', err) \<Rightarrow>
                    (case AddServiceVersionRule d w ctx (ParseDomainProject ctx) service provider' of
                       (Some err', w') \<Rightarrow>
                         Inl (Return (FindFailure ErrInternal err', Some (PlainErr err')), w')
                     | (None, w') \<Rightarrow> Inr w'))
          else Inr w)"

text \<open>The request's result, the context that carries the response revision, and the
  world.\<close>

definition Find ::
  "'w deps \<Rightarrow> Context \<Rightarrow> pb_FindInstancesRequest \<Rightarrow> 'w
     \<Rightarrow> (pb_FindInstancesResponse \<times> GoError option) outcome \<times> Context \<times> 'w" where
  "Find d ctx in_req w =
     (case ValidateFind d in_req of
        Some err \<Rightarrow> (Return (FindFailure ErrInvalidParams err, None), ctx, w)
      | None \<Rightarrow>
          (case Find_consumer d w ctx in_req of
             Inl early \<Rightarrow> (Return early, ctx, w)
           | Inr service \<Rightarrow>
               (case Find_provider d ctx in_req service of
                  (ctx1, provider) \<Rightarrow>
                    (let rev = ctx_string ctx1 CTX_REQUEST_REVISION
                     in case FindInstances_Get d w ctx1 service provider (Tags in_req) rev of
                          (item, Some err) \<Rightarrow>
                            (Return (FindFailure ErrInternal err, Some (PlainErr err)), ctx1, w)
                        | (None, None) \<Rightarrow>
                            (Return (FindFailure ErrServiceNotExists
                                       (findFlag d ctx in_req service provider
                                          @ '' failed, provider does not exist.''), None),
                             ctx1, w)
                        | (Some item, None) \<Rightarrow>
                            (case Find_dependency d w ctx1 in_req service provider item of
                               Inl (early, w') \<Rightarrow> (early, ctx1, w')
                             | Inr w' \<Rightarrow>
                                 (let instances = (if rev = Rev item then []
                                                   else Instances_item item);
                                      ctx2 = SetContext ctx1 CTX_RESPONSE_REVISION (Rev item)
                                  in (Return (\<lparr>Response_find =
                                                  CreateResponse Response_SUCCESS
                                                    ''Query service instances successfully.'',
                                                Instances_find = instances\<rparr>, None),
                                      ctx2, w')))))))"

section \<open>The transactional key-value store\<close>

text \<open>Modelled from the spec: the registry backend is not part of the source file. Section
  4.1 describes it: a transaction checks its compare predicates and then applies all of
  its operations atomically or none; a lease grant answers a fresh lease id; revoking or
  expiring a lease deletes every key that carries it. A key that is absent has version 0,
  and each put adds one to the version.\<close>

record KeyValue =
  Value_kv :: string
  Lease_kv :: int
  Version_kv :: nat

record store =
  kvs :: "string \<rightharpoonup> KeyValue"
  leases :: "int \<rightharpoonup> int"
  next_lease :: int

definition version_of :: "store \<Rightarrow> string \<Rightarrow> nat" where
  "version_of s k = (case kvs s k of None \<Rightarrow> 0 | Some kv \<Rightarrow> Version_kv kv)"

definition store_cmp :: "store \<Rightarrow> CompareOp \<Rightarrow> bool" where
  "store_cmp s c =
     (let v = int (version_of s (Key_cmp c))
      in case Result_cmp c of
           CMP_EQUAL \<Rightarrow> v = Value_cmp c
         | CMP_GREATER \<Rightarrow> v > Value_cmp c
         | CMP_LESS \<Rightarrow> v < Value_cmp c
         | CMP_NOT_EQUAL \<Rightarrow> v \<noteq> Value_cmp c)"

definition store_apply :: "store \<Rightarrow> PluginOp \<Rightarrow> store" where
  "store_apply s op =
     (case Action op of
        Get \<Rightarrow> s
      | Put \<Rightarrow>
          s\<lparr>kvs := (kvs s)(Key op \<mapsto>
              \<lparr>Value_kv = Value op, Lease_kv = Lease op,
               Version_kv = Suc (version_of s (Key op))\<rparr>)\<rparr>
      | Delete \<Rightarrow> s\<lparr>kvs := (kvs s)(Key op := None)\<rparr>)"

definition store_TxnWithCmp ::
  "store \<Rightarrow> PluginOp list \<Rightarrow> CompareOp list \<Rightarrow> (string + bool) \<times> store" where
  "store_TxnWithCmp s ops cmps =
     (if list_all (store_cmp s) cmps then (Inr True, foldl store_apply s ops)
      else (Inr False, s))"

definition store_LeaseGrant :: "store \<Rightarrow> int \<Rightarrow> (string + int) \<times> store" where
  "store_LeaseGrant s ttl =
     (Inr (next_lease s),
      s\<lparr>leases := (leases s)(next_lease s \<mapsto> ttl), next_lease := next_lease s + 1\<rparr>)"

text \<open>The store after a lease grant.\<close>

definition store_granted :: "store \<Rightarrow> int \<Rightarrow> store" where
  "store_granted s ttl =
     s\<lparr>leases := (leases s)(next_lease s \<mapsto> ttl), next_lease := next_lease s + 1\<rparr>"

definition store_LeaseRevoke :: "store \<Rightarrow> int \<Rightarrow> store" where
  "store_LeaseRevoke s l =
     s\<lparr>kvs := (\<lambda>k. case kvs s k of
                      None \<Rightarrow> None
                    | Some kv \<Rightarrow> if Lease_kv kv = l then None else Some kv),
       leases := (leases s)(l := None)\<rparr>"

text \<open>A backend over the store: each call of Register and Unregister to the backend
  either takes effect as above, or fails with an error, having taken effect or not.\<close>

definition store_backend :: "store deps \<Rightarrow> bool" where
  "store_backend d =
     ((\<forall>s ttl. LeaseGrant d s ttl = store_LeaseGrant s ttl
          \<or> (\<exists>e. LeaseGrant d s ttl = (Inl e, s))
          \<or> (\<exists>e. LeaseGrant d s ttl = (Inl e, snd (store_LeaseGrant s ttl))))
      \<and> (\<forall>s ops cmps. TxnWithCmp d s ops cmps = store_TxnWithCmp s ops cmps
          \<or> (\<exists>e. TxnWithCmp d s ops cmps = (Inl e, s))
          \<or> (\<exists>e. TxnWithCmp d s ops cmps = (Inl e, snd (store_TxnWithCmp s ops cmps))))
      \<and> (\<forall>s l. LeaseRevoke d s l = (None, store_LeaseRevoke s l)
          \<or> (\<exists>e. LeaseRevoke d s l = (Some e, s))
          \<or> (\<exists>e. LeaseRevoke d s l = (Some e, store_LeaseRevoke s l))))"

text \<open>The pairing of instance key and lease key: for every instance, both keys are absent,
  or both are present under the same lease, which is granted, and the lease key holds
  the printed lease id.\<close>

definition paired :: "KeyValue option \<Rightarrow> KeyValue option \<Rightarrow> (int \<rightharpoonup> int) \<Rightarrow> bool" where
  "paired instance_kv lease_kv granted =
     (case (instance_kv, lease_kv) of
        (None, None) \<Rightarrow> True
      | (Some a, Some b) \<Rightarrow>
          Lease_kv a = Lease_kv b \<and> Value_kv b = FormatInt (Lease_kv b)
          \<and> Lease_kv b \<in> dom granted
      | (Some a, None) \<Rightarrow> False
      | (None, Some b) \<Rightarrow> False)"

definition sibling_inv :: "store \<Rightarrow> bool" where
  "sibling_inv s =
     (\<forall>dp sid iid.
        paired (kvs s (GenerateInstanceKey dp sid iid))
               (kvs s (GenerateInstanceLeaseKey dp sid iid)) (leases s))"

definition empty_store :: store where
  "empty_store = \<lparr>kvs = Map.empty, leases = Map.empty, next_lease = 1\<rparr>"

text \<open>The states of the store that can be reached: service records are written and
  deleted by the service administration (out of scope here, and touching service keys
  only), instances are admitted by Register and removed by Unregister, and leases
  expire.\<close>

inductive reachable :: "store \<Rightarrow> bool" where
  init: "reachable empty_store"
| service_write:
    "reachable s \<Longrightarrow>
     reachable (store_apply s \<lparr>Action = a, Key = GenerateServiceKey dp sid, Value = v, Lease = 0\<rparr>)"
| register:
    "reachable s \<Longrightarrow> store_backend d \<Longrightarrow> Register d ctx in_req s = (r, s', evs) \<Longrightarrow> reachable s'"
| unregister:
    "reachable s \<Longrightarrow> store_backend d \<Longrightarrow> Unregister d ctx un_req s = (u, s', evs) \<Longrightarrow> reachable s'"
| lease_end: "reachable s \<Longrightarrow> reachable (store_LeaseRevoke s l)"

fun is_TxnWithCmp :: "Event \<Rightarrow> bool" where
  "is_TxnWithCmp (EvTxnWithCmp ops cmps res) = True"
| "is_TxnWithCmp e = False"

section \<open>A concrete registry for evaluation\<close>

definition demo_ctx :: Context where
  "demo_ctx = [CTX_DOMAIN \<mapsto> ''default'', CTX_PROJECT \<mapsto> ''default'',
               CTX_TARGET_DOMAIN \<mapsto> ''default'', CTX_TARGET_PROJECT \<mapsto> ''default'']"

definition demo_service :: pb_MicroService where
  "demo_service = \<lparr>ServiceId_svc = ''s1'', Environment_svc = ''production'', AppId_svc = ''app'',
                     ServiceName_svc = ''svc'', Version_svc = ''1.0.0''\<rparr>"

definition demo_instance :: "pb_HealthCheck option \<Rightarrow> pb_MicroServiceInstance" where
  "demo_instance hc =
     \<lparr>InstanceId = ''i1'', ServiceId = ''s1'', Endpoints = [''http://h:9''], HostName = ''h'',
      Status = [], HealthCheck = hc, Timestamp = [], ModTimestamp = [], Version = []\<rparr>"

definition demo_item :: VersionRuleCacheItem where
  "demo_item = \<lparr>ServiceIds = [''s1''],
                  Instances_item = [demo_instance None], Rev = ''R1''\<rparr>"

text \<open>Every collaborator answers without error; the backend is the store; the service
  lookup answers the demonstration service whatever the store holds (a stale read).\<close>

definition demo_deps :: "store deps" where
  "demo_deps =
     \<lparr>Validate = (\<lambda>in_req. None),
      InstanceExist = (\<lambda>w ctx instance. ([], None)),
      GetInstanceId = (\<lambda>ctx. ''generated''),
      NowUnix = 1500000000,
      GetService = (\<lambda>w ctx dp sid. (Some demo_service, None)),
      IsSCInstance = (\<lambda>ctx. False),
      Apply4Quotas = (\<lambda>w ctx res. \<lparr>Err = None\<rparr>),
      ReportUsedQuota = (\<lambda>ctx reporter. Return None),
      Marshal = (\<lambda>instance. Inr (InstanceId instance)),
      LeaseGrant = store_LeaseGrant,
      TxnWithCmp = store_TxnWithCmp,
      ValidateUnregister = (\<lambda>in_req. None),
      InstanceExistById = (\<lambda>w ctx dp sid iid. (kvs w (GenerateInstanceKey dp sid iid) \<noteq> None, None)),
      GetLeaseId = (\<lambda>w ctx dp sid iid.
         case kvs w (GenerateInstanceLeaseKey dp sid iid) of
           None \<Rightarrow> (- 1, None)
         | Some kv \<Rightarrow> (Lease_kv kv, None)),
      LeaseRevoke = (\<lambda>w l. (None, store_LeaseRevoke w l)),
      ValidateFind = (\<lambda>in_req. None),
      IsShared = (\<lambda>key. ServiceName key = ''shared''),
      Service_Environment = ''registry-env'',
      FindInstances_Get = (\<lambda>w ctx service provider tags rev. (Some demo_item, None)),
      ExistVersionRule = (\<lambda>w ctx consumer provider. True),
      MicroServiceToKey = (\<lambda>tenant service.
         \<lparr>Tenant = tenant, Environment = Environment_svc service, AppId = AppId_svc service,
          ServiceName = ServiceName_svc service, Alias = [], Version_key = Version_svc service\<rparr>),
      AddServiceVersionRule = (\<lambda>w ctx dp consumer provider. (None, w)),
      HeartbeatUtil = (\<lambda>w ctx dp sid iid.
         if iid = ''I_missing'' then Some ''leaseId not exist'' else None),
      Arrival = rev\<rparr>"

definition demo_find :: "string \<Rightarrow> pb_FindInstancesRequest" where
  "demo_find name =
     \<lparr>ConsumerServiceId = ''c1'', AppId_req = ''app'', ServiceName_req = name,
      VersionRule = ''latest'', Environment_req = ''development'', Tags = []\<rparr>"

definition demo_store :: store where
  "demo_store =
     store_apply empty_store
       \<lparr>Action = Put, Key = GenerateServiceKey ''default/default'' ''s1'', Value = ''svc'', Lease = 0\<rparr>"

text \<open>The same registry with a cache that holds one entry only, for the provider key of
  the registry's own environment in the tenant \<open>default/default\<close>.\<close>

definition demo_registry_deps :: "store deps" where
  "demo_registry_deps =
     demo_deps\<lparr>FindInstances_Get := (\<lambda>w ctx service provider tags rev.
        if Environment provider = ''registry-env'' \<and> Tenant provider = ''default/default''
        then (Some demo_item, None) else (None, None))\<rparr>"

section \<open>Properties\<close>

subsection \<open>Unfolding and evaluation\<close>

lemma sint_product_exact:
  fixes i t :: int32
  assumes "- (2 ^ 31) \<le> sint i * (sint t + 1)" and "sint i * (sint t + 1) < 2 ^ 31"
  shows "sint (i * (t + 1)) = sint i * (sint t + 1)"
proof -
  have self: "signed_take_bit 31 (sint i) = sint i"
    using sint_ge [of i] sint_lt [of i] by (simp add: signed_take_bit_int_eq_self)
  have "sint (i * (t + 1)) = signed_take_bit 31 (sint i * sint (t + 1))"
    by (simp add: sint_word_ariths)
  also have "sint (t + 1) = signed_take_bit 31 (sint t + 1)"
    by (simp add: sint_word_ariths)
  also have "signed_take_bit 31 (sint i * signed_take_bit 31 (sint t + 1))
           = signed_take_bit 31 (signed_take_bit 31 (sint i) * signed_take_bit 31 (sint t + 1))"
    by (simp only: self)
  also have "\<dots> = signed_take_bit (31::nat) (sint i * (sint t + 1))"
    by (rule signed_take_bit_mult)
  also have "\<dots> = sint i * (sint t + 1)"
    using assms by (simp add: signed_take_bit_int_eq_self)
  finally show ?thesis .
qed

lemma preProcessHealthCheck_heartbeat:
  assumes "HealthCheck inst = Some hc" and "Mode hc = CHECK_BY_HEARTBEAT"
  shows "preProcessHealthCheck inst =
     (if sint (Interval hc * (Times hc + 1)) \<le> 0 \<or> sint (Interval hc * (Times hc + 1)) \<ge> MaxInt32
      then Inl (NewError ErrInvalidParams ''Invalid 'healthCheck' settings in request body.'')
      else Inr inst)"
  using assms by (simp add: preProcessHealthCheck_def Let_def)

lemma preProcessHealthCheck_platform:
  assumes "HealthCheck inst = Some hc" and "Mode hc = CHECK_BY_PLATFORM"
  shows "preProcessHealthCheck inst =
     Inr (inst\<lparr>HealthCheck := Some \<lparr>Mode = CHECK_BY_PLATFORM, Interval = 30, Times = 3\<rparr>\<rparr>)"
  using assms by (simp add: preProcessHealthCheck_def Let_def
      REGISTRY_DEFAULT_LEASE_RENEWALINTERVAL_def REGISTRY_DEFAULT_LEASE_RETRYTIMES_def)

lemma preProcessHealthCheck_missing:
  assumes "HealthCheck inst = None"
  shows "preProcessHealthCheck inst =
     Inr (inst\<lparr>HealthCheck := Some \<lparr>Mode = CHECK_BY_HEARTBEAT, Interval = 30, Times = 3\<rparr>\<rparr>)"
  using assms by (simp add: preProcessHealthCheck_def Let_def
      REGISTRY_DEFAULT_LEASE_RENEWALINTERVAL_def REGISTRY_DEFAULT_LEASE_RETRYTIMES_def)

lemma HealthCheck_preProcessStamp [simp]:
  "HealthCheck (preProcessStamp d ctx inst) = HealthCheck inst"
  by (simp add: preProcessStamp_def Let_def)

lemma ServiceId_preProcessStamp [simp]:
  "ServiceId (preProcessStamp d ctx inst) = ServiceId inst"
  by (simp add: preProcessStamp_def Let_def)

text \<open>Register once the request has passed validation and no instance was found.\<close>

lemma Register_fresh:
  assumes "Validate d in_req = None" and "InstanceExist d w ctx (Instance in_req) = ([], None)"
  shows "Register d ctx in_req w =
     (case preProcessRegisterInstance d w ctx (Instance in_req) of
        (instance', Some err) \<Rightarrow>
          (Return (\<lparr>Response = CreateResponseWithSCErr err, InstanceId_resp = []\<rparr>, None), w, [])
      | (instance', None) \<Rightarrow> Register_admit d ctx instance' w)"
  using assms by (simp add: Register_def)

lemma preProcess_result_HealthCheck:
  assumes "preProcessHealthCheck (preProcessStamp d ctx inst) = Inr inst5"
  shows "HealthCheck (fst (preProcessRegisterInstance d w ctx inst)) = HealthCheck inst5"
  using assms
  by (auto simp: preProcessRegisterInstance_def Let_def split: prod.splits option.splits)

lemma Register_admit_ttl:
  assumes "Register_admit d ctx inst w = (r, w', evs)" and "EvLeaseGrant ttl res \<in> set evs"
    and "HealthCheck inst = Some hc"
  shows "ttl = sint (Interval hc * (Times hc + 1))"
  using assms
  by (auto simp: Register_admit_def Register_commit_def Let_def
      split: option.splits sum.splits prod.splits if_splits outcome.splits)



lemmas demo_defs = demo_deps_def demo_ctx_def demo_instance_def demo_service_def demo_store_def
  empty_store_def

lemmas Register_defs = Register_def Register_admit_def Register_commit_def
  Register_reporter_def Register_opts_def Register_cmps_def
  preProcessRegisterInstance_def preProcessStamp_def preProcessHealthCheck_def
  RegisterFailure_def CreateResponse_def CreateResponseWithSCErr_def
  NewError_def InternalError_def NewApplyQuotaResource_def OpPut_def OpCmp_def CmpVer_def
  GenerateInstanceKey_def GenerateInstanceLeaseKey_def GenerateServiceKey_def
  ParseDomainProject_def ParseDomain_def ParseProject_def ctx_string_def MSI_UP_def MaxInt32_def
  REGISTRY_DEFAULT_LEASE_RENEWALINTERVAL_def REGISTRY_DEFAULT_LEASE_RETRYTIMES_def

lemmas store_defs = store_TxnWithCmp_def store_LeaseGrant_def store_apply_def store_cmp_def
  version_of_def store_LeaseRevoke_def

lemma Register_reject_iff:
  assumes v: "Validate d in_req = None"
    and e: "InstanceExist d w ctx (Instance in_req) = ([], None)"
    and hc: "HealthCheck (Instance in_req) = Some hc"
    and m: "Mode hc = CHECK_BY_HEARTBEAT"
  shows "Register d ctx in_req w =
           (Return (RegisterFailure ErrInvalidParams
                      ''Invalid 'healthCheck' settings in request body.'', None), w, [])
     \<longleftrightarrow> (sint (Interval hc * (Times hc + 1)) \<le> 0 \<or> sint (Interval hc * (Times hc + 1)) \<ge> MaxInt32)"
proof (cases "sint (Interval hc * (Times hc + 1)) \<le> 0 \<or> sint (Interval hc * (Times hc + 1)) \<ge> MaxInt32")
  case True
  then show ?thesis
    using hc m
    by (simp add: Register_fresh [OF v e] preProcessRegisterInstance_def Let_def
        preProcessHealthCheck_heartbeat RegisterFailure_def CreateResponseWithSCErr_def
        CreateResponse_def NewError_def)
next
  case False
  have pre: "preProcessHealthCheck (preProcessStamp d ctx (Instance in_req))
               = Inr (preProcessStamp d ctx (Instance in_req))"
    using False hc m by (simp add: preProcessHealthCheck_heartbeat)
  have "Register d ctx in_req w \<noteq>
           (Return (RegisterFailure ErrInvalidParams
                      ''Invalid 'healthCheck' settings in request body.'', None), w, [])"
    using hc
    by (auto simp: Register_fresh [OF v e] preProcessRegisterInstance_def Let_def pre
        RegisterFailure_def CreateResponseWithSCErr_def CreateResponse_def NewError_def
        Register_admit_def Register_commit_def
        split: prod.splits option.splits sum.splits if_splits outcome.splits)
  with False show ?thesis by simp
qed

lemma Register_commit_txn:
  assumes "Register_commit d ctx inst ttl rep w = (r, w', evs)"
    and "EvTxnWithCmp ops cmps res \<in> set evs"
  shows "\<exists>data leaseID w1.
           Marshal d inst = Inr data
         \<and> LeaseGrant d w ttl = (Inr leaseID, w1)
         \<and> TxnWithCmp d w1 ops cmps = (res, w')
         \<and> ops = Register_opts ctx inst data leaseID
         \<and> cmps = Register_cmps ctx inst
         \<and> evs = [EvLeaseGrant ttl (Inr leaseID), EvTxnWithCmp ops cmps res]
                  @ (if res = Inr True then [EvReportUsedQuota rep] else [])
         \<and> r = (case res of
                  Inl err \<Rightarrow> Return (RegisterFailure ErrUnavailableBackend err, Some (PlainErr err))
                | Inr succeeded \<Rightarrow>
                    if succeeded
                    then (case ReportUsedQuota d ctx rep of
                            Panic \<Rightarrow> Panic
                          | Return err \<Rightarrow>
                              Return (\<lparr>Response = CreateResponse Response_SUCCESS
                                                   ''Register service instance successfully.'',
                                        InstanceId_resp = InstanceId inst\<rparr>, None))
                    else Return (RegisterFailure ErrServiceNotExists ''Service does not exist.'',
                                 None))"
  using assms
  by (auto simp: Register_commit_def Let_def
      split: sum.splits prod.splits if_splits option.splits outcome.splits)

lemma Register_admit_txn:
  assumes "Register_admit d ctx inst w = (r, w', evs)"
    and "EvTxnWithCmp ops cmps res \<in> set evs"
  shows "\<exists>hc cev.
           HealthCheck inst = Some hc
         \<and> Register_commit d ctx inst (sint (Interval hc * (Times hc + 1)))
               (Register_reporter d w ctx inst) w = (r, w', cev)
         \<and> EvTxnWithCmp ops cmps res \<in> set cev
         \<and> evs = (if IsSCInstance d ctx then cev
                   else EvApply4Quotas (NewApplyQuotaResource (ParseDomainProject ctx)
                                          (ServiceId inst) 1) # cev @ [EvQuotaClose])"
  using assms
  by (auto simp: Register_admit_def Register_reporter_def Let_def
      split: option.splits prod.splits if_splits)

lemma Register_txn:
  assumes "Register d ctx in_req w = (r, w', evs)"
    and "EvTxnWithCmp ops cmps res \<in> set evs"
  shows "Validate d in_req = None
       \<and> preProcessRegisterInstance d w ctx (Instance in_req)
           = (fst (preProcessRegisterInstance d w ctx (Instance in_req)), None)
       \<and> Register_admit d ctx (fst (preProcessRegisterInstance d w ctx (Instance in_req))) w
           = (r, w', evs)"
  using assms
  by (auto simp: Register_def Let_def split: option.splits prod.splits if_splits)

text \<open>The whole of a run that reaches the transaction.\<close>

lemma Register_reaches_txn:
  assumes run: "Register d ctx in_req w = (r, w', evs)"
    and ev: "EvTxnWithCmp ops cmps res \<in> set evs"
  shows "\<exists>inst hc data leaseID w1 cev.
           inst = fst (preProcessRegisterInstance d w ctx (Instance in_req))
         \<and> HealthCheck inst = Some hc
         \<and> Marshal d inst = Inr data
         \<and> LeaseGrant d w (sint (Interval hc * (Times hc + 1))) = (Inr leaseID, w1)
         \<and> TxnWithCmp d w1 ops cmps = (res, w')
         \<and> ops = Register_opts ctx inst data leaseID
         \<and> cmps = Register_cmps ctx inst
         \<and> cev = [EvLeaseGrant (sint (Interval hc * (Times hc + 1))) (Inr leaseID),
                   EvTxnWithCmp ops cmps res]
                  @ (if res = Inr True then [EvReportUsedQuota (Register_reporter d w ctx inst)]
                     else [])
         \<and> evs = (if IsSCInstance d ctx then cev
                   else EvApply4Quotas (NewApplyQuotaResource (ParseDomainProject ctx)
                                          (ServiceId inst) 1) # cev @ [EvQuotaClose])
         \<and> r = (case res of
                  Inl err \<Rightarrow> Return (RegisterFailure ErrUnavailableBackend err, Some (PlainErr err))
                | Inr succeeded \<Rightarrow>
                    if succeeded
                    then (case ReportUsedQuota d ctx (Register_reporter d w ctx inst) of
                            Panic \<Rightarrow> Panic
                          | Return err \<Rightarrow>
                              Return (\<lparr>Response = CreateResponse Response_SUCCESS
                                                   ''Register service instance successfully.'',
                                        InstanceId_resp = InstanceId inst\<rparr>, None))
                    else Return (RegisterFailure ErrServiceNotExists ''Service does not exist.'',
                                 None))"
proof -
  let ?inst = "fst (preProcessRegisterInstance d w ctx (Instance in_req))"
  from Register_txn [OF run ev]
  have adm: "Register_admit d ctx ?inst w = (r, w', evs)" by simp
  from Register_admit_txn [OF adm ev] obtain hc cev where
    hc: "HealthCheck ?inst = Some hc"
    and com: "Register_commit d ctx ?inst (sint (Interval hc * (Times hc + 1)))
                (Register_reporter d w ctx ?inst) w = (r, w', cev)"
    and cev: "EvTxnWithCmp ops cmps res \<in> set cev"
    and evs: "evs = (if IsSCInstance d ctx then cev
                   else EvApply4Quotas (NewApplyQuotaResource (ParseDomainProject ctx)
                                          (ServiceId ?inst) 1) # cev @ [EvQuotaClose])"
    by blast
  from Register_commit_txn [OF com cev] hc evs show ?thesis by blast
qed

lemma store_backend_grant:
  assumes "store_backend d" and "LeaseGrant d s ttl = (Inr leaseID, s1)"
  shows "leaseID = next_lease s
       \<and> s1 = s\<lparr>leases := (leases s)(next_lease s \<mapsto> ttl), next_lease := next_lease s + 1\<rparr>"
proof -
  from assms(1) have "LeaseGrant d s ttl = store_LeaseGrant s ttl
          \<or> (\<exists>e. LeaseGrant d s ttl = (Inl e, s))
          \<or> (\<exists>e. LeaseGrant d s ttl = (Inl e, snd (store_LeaseGrant s ttl)))"
    unfolding store_backend_def by blast
  with assms(2) show ?thesis
    by (auto simp: store_LeaseGrant_def)
qed

lemma store_backend_txn:
  assumes "store_backend d" and "TxnWithCmp d s ops cmps = (Inr succeeded, s')"
  shows "succeeded = list_all (store_cmp s) cmps
       \<and> s' = (if succeeded then foldl store_apply s ops else s)"
proof -
  from assms(1) have "TxnWithCmp d s ops cmps = store_TxnWithCmp s ops cmps
          \<or> (\<exists>e. TxnWithCmp d s ops cmps = (Inl e, s))
          \<or> (\<exists>e. TxnWithCmp d s ops cmps = (Inl e, snd (store_TxnWithCmp s ops cmps)))"
    unfolding store_backend_def by blast
  with assms(2) show ?thesis
    by (auto simp: store_TxnWithCmp_def split: if_splits)
qed

lemma Register_txn_result:
  assumes "Register d ctx in_req w = (r, w', evs)"
    and "EvTxnWithCmp ops cmps res \<in> set evs"
  shows "r = (case res of
                Inl err \<Rightarrow> Return (RegisterFailure ErrUnavailableBackend err, Some (PlainErr err))
              | Inr succeeded \<Rightarrow>
                  if succeeded
                  then (case ReportUsedQuota d ctx
                               (Register_reporter d w ctx
                                  (fst (preProcessRegisterInstance d w ctx (Instance in_req)))) of
                          Panic \<Rightarrow> Panic
                        | Return err \<Rightarrow>
                            Return (\<lparr>Response = CreateResponse Response_SUCCESS
                                                 ''Register service instance successfully.'',
                                      InstanceId_resp =
                                        InstanceId (fst (preProcessRegisterInstance d w ctx
                                                           (Instance in_req)))\<rparr>, None))
                  else Return (RegisterFailure ErrServiceNotExists ''Service does not exist.'',
                               None))"
  using Register_reaches_txn [OF assms] by auto

lemma Register_txn_events:
  assumes "Register d ctx in_req w = (r, w', evs)"
    and "EvTxnWithCmp ops cmps res \<in> set evs"
  shows "\<exists>ttl data leaseID.
           evs = (if IsSCInstance d ctx then []
                  else [EvApply4Quotas
                          (NewApplyQuotaResource (ParseDomainProject ctx)
                             (ServiceId (fst (preProcessRegisterInstance d w ctx
                                                (Instance in_req)))) 1)])
                 @ [EvLeaseGrant ttl (Inr leaseID), EvTxnWithCmp ops cmps res]
                 @ (if res = Inr True
                    then [EvReportUsedQuota
                            (Register_reporter d w ctx
                               (fst (preProcessRegisterInstance d w ctx (Instance in_req))))]
                    else [])
                 @ (if IsSCInstance d ctx then [] else [EvQuotaClose])
         \<and> ops = Register_opts ctx (fst (preProcessRegisterInstance d w ctx (Instance in_req)))
                   data leaseID
         \<and> cmps = Register_cmps ctx (fst (preProcessRegisterInstance d w ctx (Instance in_req)))"
  using Register_reaches_txn [OF assms]
  by (cases "IsSCInstance d ctx"; cases "res = Inr True") auto

lemma Register_txn_backend:
  assumes "Register d ctx in_req w = (r, w', evs)"
    and "EvTxnWithCmp ops cmps res \<in> set evs"
  shows "\<exists>ttl data leaseID w1.
           LeaseGrant d w ttl = (Inr leaseID, w1)
         \<and> TxnWithCmp d w1 ops cmps = (res, w')
         \<and> ops = Register_opts ctx (fst (preProcessRegisterInstance d w ctx (Instance in_req)))
                   data leaseID
         \<and> cmps = Register_cmps ctx (fst (preProcessRegisterInstance d w ctx (Instance in_req)))"
  using Register_reaches_txn [OF assms] by auto

lemma store_backend_demo: "store_backend demo_deps"
  by (simp add: store_backend_def demo_deps_def)

subsection \<open>The pairing of instance key and lease key\<close>

lemma instance_key_eq_iff:
  "GenerateInstanceKey dp sid iid = GenerateInstanceKey dp' sid' iid'
     \<longleftrightarrow> GenerateInstanceLeaseKey dp sid iid = GenerateInstanceLeaseKey dp' sid' iid'"
  by (simp add: GenerateInstanceKey_def GenerateInstanceLeaseKey_def)

lemma instance_key_neq_lease_key [simp]:
  "GenerateInstanceKey dp sid iid \<noteq> GenerateInstanceLeaseKey dp' sid' iid'"
  "GenerateInstanceLeaseKey dp' sid' iid' \<noteq> GenerateInstanceKey dp sid iid"
  by (simp_all add: GenerateInstanceKey_def GenerateInstanceLeaseKey_def)

lemma service_key_neq [simp]:
  "GenerateServiceKey dp sid \<noteq> GenerateInstanceKey dp' sid' iid'"
  "GenerateServiceKey dp sid \<noteq> GenerateInstanceLeaseKey dp' sid' iid'"
  "GenerateInstanceKey dp' sid' iid' \<noteq> GenerateServiceKey dp sid"
  "GenerateInstanceLeaseKey dp' sid' iid' \<noteq> GenerateServiceKey dp sid"
  by (simp_all add: GenerateServiceKey_def GenerateInstanceKey_def GenerateInstanceLeaseKey_def)

lemma sibling_inv_empty: "sibling_inv empty_store"
  by (simp add: sibling_inv_def empty_store_def paired_def)

lemma sibling_inv_service_write:
  assumes "sibling_inv s"
  shows "sibling_inv (store_apply s \<lparr>Action = a, Key = GenerateServiceKey dp sid, Value = v, Lease = l\<rparr>)"
  using assms
  by (cases a) (simp_all add: sibling_inv_def store_apply_def)

lemma paired_grant:
  "paired a b granted \<Longrightarrow> paired a b (granted(l \<mapsto> ttl))"
  by (auto simp: paired_def split: option.splits)

lemma sibling_inv_grant:
  assumes "sibling_inv s"
  shows "sibling_inv (s\<lparr>leases := (leases s)(l \<mapsto> ttl), next_lease := n\<rparr>)"
  using assms by (simp add: sibling_inv_def paired_grant)

lemma paired_revoke:
  "paired a b granted \<Longrightarrow>
   paired (case a of None \<Rightarrow> None | Some kv \<Rightarrow> if Lease_kv kv = l then None else Some kv)
          (case b of None \<Rightarrow> None | Some kv \<Rightarrow> if Lease_kv kv = l then None else Some kv)
          (granted(l := None))"
  by (auto simp: paired_def split: option.splits)

lemma sibling_inv_revoke:
  assumes "sibling_inv s"
  shows "sibling_inv (store_LeaseRevoke s l)"
  using assms by (simp add: sibling_inv_def store_LeaseRevoke_def paired_revoke)

lemma sibling_inv_commit:
  assumes "sibling_inv s" and "leaseID \<in> dom (leases s)"
  shows "sibling_inv (foldl store_apply s (Register_opts ctx inst data leaseID))"
  unfolding sibling_inv_def
proof (intro allI)
  fix dp sid iid
  let ?s' = "foldl store_apply s (Register_opts ctx inst data leaseID)"
  let ?k = "GenerateInstanceKey (ParseDomainProject ctx) (ServiceId inst) (InstanceId inst)"
  let ?h = "GenerateInstanceLeaseKey (ParseDomainProject ctx) (ServiceId inst) (InstanceId inst)"
  have kvs': "kvs ?s' = (kvs s)
      (?k \<mapsto> \<lparr>Value_kv = data, Lease_kv = leaseID, Version_kv = Suc (version_of s ?k)\<rparr>,
       ?h \<mapsto> \<lparr>Value_kv = FormatInt leaseID, Lease_kv = leaseID, Version_kv = Suc (version_of s ?h)\<rparr>)"
    by (simp add: Register_opts_def Let_def store_apply_def OpPut_def version_of_def)
  have leases': "leases ?s' = leases s"
    by (simp add: Register_opts_def Let_def store_apply_def OpPut_def)
  from assms(1) have old: "paired (kvs s (GenerateInstanceKey dp sid iid))
               (kvs s (GenerateInstanceLeaseKey dp sid iid)) (leases s)"
    unfolding sibling_inv_def by blast
  show "paired (kvs ?s' (GenerateInstanceKey dp sid iid))
               (kvs ?s' (GenerateInstanceLeaseKey dp sid iid)) (leases ?s')"
  proof (cases "GenerateInstanceKey dp sid iid = ?k")
    case True
    then have "GenerateInstanceLeaseKey dp sid iid = ?h"
      by (simp add: instance_key_eq_iff)
    with True assms(2) show ?thesis
      by (simp add: kvs' leases' paired_def)
  next
    case False
    then have "GenerateInstanceLeaseKey dp sid iid \<noteq> ?h"
      by (simp add: instance_key_eq_iff)
    with False old show ?thesis
      by (simp add: kvs' leases')
  qed
qed

lemma store_backend_grant_world:
  assumes "store_backend d" and "LeaseGrant d s ttl = (res, s1)"
  shows "s1 = s \<or> s1 = snd (store_LeaseGrant s ttl)"
proof -
  from assms(1) have "LeaseGrant d s ttl = store_LeaseGrant s ttl
          \<or> (\<exists>e. LeaseGrant d s ttl = (Inl e, s))
          \<or> (\<exists>e. LeaseGrant d s ttl = (Inl e, snd (store_LeaseGrant s ttl)))"
    unfolding store_backend_def by blast
  with assms(2) show ?thesis by (auto simp: snd_def split: prod.splits)
qed

lemma store_backend_txn_world:
  assumes "store_backend d" and "TxnWithCmp d s ops cmps = (res, s')"
  shows "s' = s \<or> (list_all (store_cmp s) cmps \<and> s' = foldl store_apply s ops)"
proof -
  from assms(1) have "TxnWithCmp d s ops cmps = store_TxnWithCmp s ops cmps
          \<or> (\<exists>e. TxnWithCmp d s ops cmps = (Inl e, s))
          \<or> (\<exists>e. TxnWithCmp d s ops cmps = (Inl e, snd (store_TxnWithCmp s ops cmps)))"
    unfolding store_backend_def by blast
  with assms(2) show ?thesis
    by (auto simp: store_TxnWithCmp_def split: if_splits)
qed

lemma Register_commit_world:
  assumes sb: "store_backend d"
    and run: "Register_commit d ctx inst ttl rep s = (r, s', evs)"
  shows "s' = s \<or> s' = store_granted s ttl
       \<or> (\<exists>data. list_all (store_cmp (store_granted s ttl)) (Register_cmps ctx inst)
             \<and> s' = foldl store_apply (store_granted s ttl)
                       (Register_opts ctx inst data (next_lease s)))"
proof (cases "Marshal d inst")
  case (Inl err)
  with run show ?thesis by (simp add: Register_commit_def)
next
  case (Inr data)
  obtain gres s1 where g: "LeaseGrant d s ttl = (gres, s1)"
    by (cases "LeaseGrant d s ttl")
  show ?thesis
  proof (cases gres)
    case (Inl err)
    with run Inr g have "s' = s1" by (simp add: Register_commit_def)
    with store_backend_grant_world [OF sb g] show ?thesis
      by (auto simp: store_granted_def store_LeaseGrant_def)
  next
    case (Inr leaseID)
    with g have "LeaseGrant d s ttl = (Inr leaseID, s1)" by simp
    from store_backend_grant [OF sb this]
    have l: "leaseID = next_lease s" and s1: "s1 = store_granted s ttl"
      by (simp_all add: store_granted_def)
    obtain tres s2 where t: "TxnWithCmp d s1 (Register_opts ctx inst data leaseID)
                               (Register_cmps ctx inst) = (tres, s2)"
      by (cases "TxnWithCmp d s1 (Register_opts ctx inst data leaseID) (Register_cmps ctx inst)")
    from run \<open>Marshal d inst = Inr data\<close> g Inr t have "s' = s2"
      by (auto simp: Register_commit_def Let_def
          split: sum.splits if_splits option.splits outcome.splits)
    with store_backend_txn_world [OF sb t] l s1 show ?thesis by auto
  qed
qed

lemma Register_admit_world:
  assumes sb: "store_backend d"
    and run: "Register_admit d ctx inst s = (r, s', evs)"
  shows "s' = s \<or> (\<exists>ttl. s' = store_granted s ttl)
       \<or> (\<exists>ttl data. list_all (store_cmp (store_granted s ttl)) (Register_cmps ctx inst)
             \<and> s' = foldl store_apply (store_granted s ttl)
                       (Register_opts ctx inst data (next_lease s)))"
proof (cases "HealthCheck inst")
  case None
  with run show ?thesis by (simp add: Register_admit_def)
next
  case (Some hc)
  let ?ttl = "sint (Interval hc * (Times hc + 1))"
  show ?thesis
  proof (cases "Register_reporter d s ctx inst")
    case None
    with run Some have "Register_commit d ctx inst ?ttl None s = (r, s', evs)"
      by (simp add: Register_admit_def)
    from Register_commit_world [OF sb this] show ?thesis by blast
  next
    case (Some reporter)
    show ?thesis
    proof (cases "Err reporter")
      case None
      obtain r0 s0 evs0 where c: "Register_commit d ctx inst ?ttl (Some reporter) s = (r0, s0, evs0)"
        by (cases "Register_commit d ctx inst ?ttl (Some reporter) s")
      with run \<open>HealthCheck inst = Some hc\<close> Some None have "s' = s0"
        by (simp add: Register_admit_def Let_def)
      with Register_commit_world [OF sb c] show ?thesis by blast
    next
      case (Some e)
      with run \<open>HealthCheck inst = Some hc\<close> \<open>Register_reporter d s ctx inst = Some reporter\<close>
      show ?thesis by (simp add: Register_admit_def Let_def)
    qed
  qed
qed

lemma Register_world:
  assumes sb: "store_backend d"
    and run: "Register d ctx in_req s = (r, s', evs)"
  shows "s' = s \<or> (\<exists>ttl. s' = store_granted s ttl)
       \<or> (\<exists>ttl data.
             list_all (store_cmp (store_granted s ttl))
               (Register_cmps ctx (fst (preProcessRegisterInstance d s ctx (Instance in_req))))
             \<and> s' = foldl store_apply (store_granted s ttl)
                       (Register_opts ctx (fst (preProcessRegisterInstance d s ctx (Instance in_req)))
                          data (next_lease s)))"
proof (cases "Register_admit d ctx (fst (preProcessRegisterInstance d s ctx (Instance in_req))) s = (r, s', evs)")
  case True
  from Register_admit_world [OF sb True] show ?thesis .
next
  case False
  with run have "s' = s"
    by (auto simp: Register_def Let_def split: option.splits prod.splits if_splits)
  then show ?thesis by simp
qed

lemma sibling_inv_Register:
  assumes sb: "store_backend d"
    and run: "Register d ctx in_req s = (r, s', evs)"
    and inv: "sibling_inv s"
  shows "sibling_inv s'"
proof -
  have g: "sibling_inv (store_granted s ttl)" for ttl
    using inv by (simp add: store_granted_def sibling_inv_grant)
  have "next_lease s \<in> dom (leases (store_granted s ttl))" for ttl
    by (simp add: store_granted_def)
  then have "sibling_inv (foldl store_apply (store_granted s ttl) (Register_opts ctx inst data (next_lease s)))"
    for ttl inst data
    using g by (rule sibling_inv_commit [rotated])
  with Register_world [OF sb run] inv g show ?thesis by auto
qed

lemma Unregister_world:
  assumes sb: "store_backend d"
    and run: "Unregister d ctx un_req s = (u, s', evs)"
  shows "s' = s \<or> (\<exists>l. s' = store_LeaseRevoke s l)"
proof -
  have rev: "s1 = s \<or> s1 = store_LeaseRevoke s l" if "LeaseRevoke d s l = (res, s1)" for l res s1
  proof -
    from sb have "LeaseRevoke d s l = (None, store_LeaseRevoke s l)
          \<or> (\<exists>e. LeaseRevoke d s l = (Some e, s))
          \<or> (\<exists>e. LeaseRevoke d s l = (Some e, store_LeaseRevoke s l))"
      unfolding store_backend_def by blast
    with that show ?thesis by auto
  qed
  have "s1 = s \<or> (\<exists>l. s1 = store_LeaseRevoke s l)"
    if "revokeInstance d s ctx dp sid iid = (res, s1, evs1)" for dp sid iid res s1 evs1
    using that rev
    by (auto simp: revokeInstance_def split: prod.splits option.splits if_splits)
  with run show ?thesis
    by (auto simp: Unregister_def Let_def split: prod.splits option.splits if_splits)
qed

lemma reachable_sibling_inv: "reachable s \<Longrightarrow> sibling_inv s"
proof (induction rule: reachable.induct)
  case init
  show ?case by (rule sibling_inv_empty)
next
  case (service_write s a dp sid v)
  then show ?case by (simp add: sibling_inv_service_write)
next
  case (register s d ctx in_req r s' evs)
  then show ?case by (blast intro: sibling_inv_Register)
next
  case (unregister s d ctx un_req u s' evs)
  from Unregister_world [OF unregister(2,3)] unregister(4) show ?case
    by (auto simp: sibling_inv_revoke)
next
  case (lease_end s l)
  then show ?case by (simp add: sibling_inv_revoke)
qed

lemma Register_writes_need_service:
  assumes sb: "store_backend d"
    and run: "Register d ctx in_req s = (r, s', evs)"
    and changed: "kvs s' k \<noteq> kvs s k"
  shows "kvs s (GenerateServiceKey (ParseDomainProject ctx) (ServiceId (Instance in_req))) \<noteq> None
       \<and> (k = GenerateInstanceKey (ParseDomainProject ctx) (ServiceId (Instance in_req))
                (InstanceId (fst (preProcessRegisterInstance d s ctx (Instance in_req))))
          \<or> k = GenerateInstanceLeaseKey (ParseDomainProject ctx) (ServiceId (Instance in_req))
                (InstanceId (fst (preProcessRegisterInstance d s ctx (Instance in_req)))))"
proof -
  let ?inst = "fst (preProcessRegisterInstance d s ctx (Instance in_req))"
  have sid: "ServiceId ?inst = ServiceId (Instance in_req)"
    by (auto simp: preProcessRegisterInstance_def preProcessHealthCheck_def Let_def
        split: sum.splits prod.splits option.splits CheckMode.splits if_splits)
  from Register_world [OF sb run] changed obtain ttl data where
    cmp: "list_all (store_cmp (store_granted s ttl)) (Register_cmps ctx ?inst)"
    and s': "s' = foldl store_apply (store_granted s ttl) (Register_opts ctx ?inst data (next_lease s))"
    by (auto simp: store_granted_def)
  from cmp have "kvs s (GenerateServiceKey (ParseDomainProject ctx) (ServiceId ?inst)) \<noteq> None"
    by (auto simp: Register_cmps_def store_cmp_def OpCmp_def CmpVer_def version_of_def store_granted_def
        split: option.splits)
  moreover from s' changed
  have "k = GenerateInstanceKey (ParseDomainProject ctx) (ServiceId ?inst) (InstanceId ?inst)
      \<or> k = GenerateInstanceLeaseKey (ParseDomainProject ctx) (ServiceId ?inst) (InstanceId ?inst)"
    by (auto simp: Register_opts_def Let_def store_apply_def OpPut_def store_granted_def split: if_splits)
  ultimately show ?thesis by (simp add: sid)
qed

lemma Register_txn_shape:
  assumes "Register d ctx in_req w = (r, w', evs)"
    and "EvTxnWithCmp ops cmps res \<in> set evs"
  shows "\<exists>ttl data leaseID pre post.
           evs = pre @ [EvLeaseGrant ttl (Inr leaseID), EvTxnWithCmp ops cmps res] @ post
         \<and> (\<forall>e \<in> set (pre @ post). \<not> is_TxnWithCmp e)
         \<and> ops = Register_opts ctx (fst (preProcessRegisterInstance d w ctx (Instance in_req)))
                   data leaseID
         \<and> cmps = Register_cmps ctx (fst (preProcessRegisterInstance d w ctx (Instance in_req)))"
proof -
  let ?inst = "fst (preProcessRegisterInstance d w ctx (Instance in_req))"
  let ?pre = "if IsSCInstance d ctx then []
              else [EvApply4Quotas (NewApplyQuotaResource (ParseDomainProject ctx)
                                      (ServiceId ?inst) 1)]"
  let ?post = "(if res = Inr True then [EvReportUsedQuota (Register_reporter d w ctx ?inst)]
                else [])
               @ (if IsSCInstance d ctx then [] else [EvQuotaClose])"
  have no: "\<forall>e \<in> set (?pre @ ?post). \<not> is_TxnWithCmp e"
    by simp
  from Register_txn_events [OF assms] obtain ttl data leaseID where
    "evs = ?pre @ [EvLeaseGrant ttl (Inr leaseID), EvTxnWithCmp ops cmps res] @ ?post"
    and "ops = Register_opts ctx ?inst data leaseID"
    and "cmps = Register_cmps ctx ?inst"
    by blast
  with no show ?thesis by blast
qed

lemma reachable_demo_store: "reachable demo_store"
  unfolding demo_store_def by (rule reachable.service_write) (rule reachable.init)

subsection \<open>HeartbeatSet: scheduling and collecting\<close>

lemma HeartbeatSet_schedule_counter:
  "HeartbeatSet_schedule existFlag n es = (n', tasks) \<Longrightarrow> n' = n + length tasks"
proof (induction es arbitrary: existFlag n n' tasks)
  case Nil
  then show ?case by simp
next
  case (Cons e es)
  show ?case
  proof (cases "existFlag (ServiceId_hb e @ InstanceId_hb e)")
    case None
    obtain m ts where rec: "HeartbeatSet_schedule
        (existFlag(ServiceId_hb e @ InstanceId_hb e \<mapsto> True)) (n + 1) es = (m, ts)"
      by (cases "HeartbeatSet_schedule (existFlag(ServiceId_hb e @ InstanceId_hb e \<mapsto> True)) (n + 1) es")
    from Cons.IH [OF rec] have "m = n + 1 + length ts" .
    with Cons.prems None rec show ?thesis by auto
  next
    case (Some ok)
    with Cons.prems have "HeartbeatSet_schedule existFlag n es = (n', tasks)" by simp
    from Cons.IH [OF this] show ?thesis .
  qed
qed

lemma HeartbeatSet_schedule_first:
  "es \<noteq> [] \<Longrightarrow> snd (HeartbeatSet_schedule Map.empty n es) \<noteq> []"
  by (cases es) (auto split: prod.splits)

lemma HeartbeatSet_schedule_new:
  assumes "existFlag (ServiceId_hb e @ InstanceId_hb e) = None"
  shows "snd (HeartbeatSet_schedule existFlag n (e # es))
           = e # snd (HeartbeatSet_schedule
                        (existFlag(ServiceId_hb e @ InstanceId_hb e \<mapsto> True)) (n + 1) es)"
  using assms by (simp split: prod.splits)

lemma HeartbeatSet_schedule_dup:
  assumes "existFlag (ServiceId_hb e @ InstanceId_hb e) = Some ok"
  shows "HeartbeatSet_schedule existFlag n (e # es) = HeartbeatSet_schedule existFlag n es"
  using assms by simp

text \<open>The tasks started are the first occurrences of the concatenated keys.\<close>

lemma HeartbeatSet_schedule_keys:
  "(\<lambda>e. ServiceId_hb e @ InstanceId_hb e) ` set (snd (HeartbeatSet_schedule existFlag n es))
     = (\<lambda>e. ServiceId_hb e @ InstanceId_hb e) ` set es - dom existFlag"
proof (induction es arbitrary: existFlag n)
  case Nil
  then show ?case by simp
next
  case (Cons e es)
  let ?key = "\<lambda>e. ServiceId_hb e @ InstanceId_hb e"
  show ?case
  proof (cases "existFlag (?key e)")
    case None
    let ?ef = "existFlag(?key e \<mapsto> True)"
    have "?key ` set (snd (HeartbeatSet_schedule existFlag n (e # es)))
            = insert (?key e) (?key ` set (snd (HeartbeatSet_schedule ?ef (n + 1) es)))"
      by (simp only: HeartbeatSet_schedule_new [of existFlag e, OF None] list.set image_insert)
    also have "\<dots> = insert (?key e) (?key ` set es - dom ?ef)"
      by (simp only: Cons.IH)
    also have "\<dots> = ?key ` set (e # es) - dom existFlag"
      using None by auto
    finally show ?thesis .
  next
    case (Some ok)
    have "?key ` set (snd (HeartbeatSet_schedule existFlag n (e # es)))
            = ?key ` set es - dom existFlag"
      by (simp only: HeartbeatSet_schedule_dup [of existFlag e, OF Some] Cons.IH)
    also have "\<dots> = ?key ` set (e # es) - dom existFlag"
      using Some by auto
    finally show ?thesis .
  qed
qed

lemma HeartbeatSet_schedule_distinct:
  "distinct (map (\<lambda>e. ServiceId_hb e @ InstanceId_hb e) (snd (HeartbeatSet_schedule existFlag n es)))"
proof (induction es arbitrary: existFlag n)
  case Nil
  then show ?case by simp
next
  case (Cons e es)
  let ?key = "\<lambda>e. ServiceId_hb e @ InstanceId_hb e"
  show ?case
  proof (cases "existFlag (?key e)")
    case None
    let ?ef = "existFlag(?key e \<mapsto> True)"
    let ?rest = "snd (HeartbeatSet_schedule ?ef (n + 1) es)"
    have "?key e \<notin> ?key ` set ?rest"
      unfolding HeartbeatSet_schedule_keys by simp
    then have "?key e \<notin> set (map ?key ?rest)"
      by simp
    moreover have "distinct (map ?key ?rest)"
      by (rule Cons.IH)
    ultimately have "distinct (map ?key (e # ?rest))"
      by simp
    then show ?thesis
      by (simp only: HeartbeatSet_schedule_new [of existFlag e, OF None])
  next
    case (Some ok)
    show ?thesis
      by (simp only: HeartbeatSet_schedule_dup [of existFlag e, OF Some] Cons.IH)
  qed
qed

lemma HeartbeatSet_schedule_length:
  "length (snd (HeartbeatSet_schedule Map.empty n es))
     = card ((\<lambda>e. ServiceId_hb e @ InstanceId_hb e) ` set es)"
proof -
  let ?key = "\<lambda>e. ServiceId_hb e @ InstanceId_hb e"
  let ?tasks = "snd (HeartbeatSet_schedule Map.empty n es)"
  have "length ?tasks = length (map ?key ?tasks)" by simp
  also have "\<dots> = card (set (map ?key ?tasks))"
    using HeartbeatSet_schedule_distinct [of Map.empty n es] by (simp only: distinct_card)
  also have "set (map ?key ?tasks) = ?key ` set es"
    using HeartbeatSet_schedule_keys [of Map.empty n es] by simp
  finally show ?thesis .
qed

lemma HeartbeatSet_collect_all:
  assumes "cnt + length channel = n" and "channel \<noteq> []"
  shows "HeartbeatSet_collect False n cnt successFlag failFlag arr channel
           = Some (n,
                   successFlag \<or> (\<exists>r \<in> set channel. ErrMessage r = []),
                   failFlag \<or> (\<exists>r \<in> set channel. ErrMessage r \<noteq> []),
                   arr @ channel)"
  using assms
proof (induction channel arbitrary: cnt successFlag failFlag arr)
  case Nil
  then show ?case by simp
next
  case (Cons h channel)
  show ?case
  proof (cases channel)
    case Nil
    with Cons.prems show ?thesis by (auto simp: Let_def)
  next
    case (Cons h' rest)
    with Cons.prems have "cnt + 1 \<noteq> n" and "(cnt + 1) + length channel = n" and "channel \<noteq> []"
      by auto
    with Cons.IH [of "cnt + 1"] show ?thesis
      by (auto simp: Let_def)
  qed
qed

lemma HeartbeatSet_returns:
  assumes perm: "\<forall>xs. mset (Arrival d xs) = mset xs"
    and ne: "Instances_req in_req \<noteq> []"
  shows "HeartbeatSet d w ctx in_req =
     (let results = Arrival d (map (getHeartbeatFunc d w ctx (ParseDomainProject ctx))
                                 (snd (HeartbeatSet_schedule Map.empty 0 (Instances_req in_req))))
      in Some \<lparr>Response_hbs =
                 (if (\<exists>r \<in> set results. ErrMessage r \<noteq> [])
                  then CreateResponse ErrInstanceNotExists ''Heartbeat set failed.''
                  else CreateResponse Response_SUCCESS ''Heartbeat set successfully.''),
               Instances_hbs = results\<rparr>)"
proof -
  obtain n tasks where sch: "HeartbeatSet_schedule Map.empty 0 (Instances_req in_req) = (n, tasks)"
    by (cases "HeartbeatSet_schedule Map.empty 0 (Instances_req in_req)")
  let ?results = "Arrival d (map (getHeartbeatFunc d w ctx (ParseDomainProject ctx)) tasks)"
  from HeartbeatSet_schedule_counter [OF sch] have n: "n = length tasks" by simp
  from HeartbeatSet_schedule_first [OF ne, of 0] sch have "tasks \<noteq> []" by simp
  from perm have "mset ?results = mset (map (getHeartbeatFunc d w ctx (ParseDomainProject ctx)) tasks)"
    by blast
  then have "size (mset ?results) = size (mset (map (getHeartbeatFunc d w ctx (ParseDomainProject ctx)) tasks))"
    by simp
  then have len: "length ?results = length tasks" by simp
  with \<open>tasks \<noteq> []\<close> have rne: "?results \<noteq> []" by auto
  from len n have "0 + length ?results = n" by simp
  from HeartbeatSet_collect_all [OF this rne, of False False "[]"]
  have col: "HeartbeatSet_collect False n 0 False False [] ?results
           = Some (n, (\<exists>r \<in> set ?results. ErrMessage r = []),
                   (\<exists>r \<in> set ?results. ErrMessage r \<noteq> []), ?results)"
    by simp
  from rne obtain r0 where "r0 \<in> set ?results" by (cases ?results) auto
  then have some: "(\<exists>r \<in> set ?results. ErrMessage r = []) \<or> (\<exists>r \<in> set ?results. ErrMessage r \<noteq> [])"
    by blast
  show ?thesis
    using ne some by (auto simp: HeartbeatSet_def sch col Let_def)
qed

lemmas HeartbeatSet_defs = HeartbeatSet_def getHeartbeatFunc_def CreateResponse_def
  ParseDomainProject_def ParseDomain_def ParseProject_def ctx_string_def

subsection \<open>Find: the successful return\<close>

lemma Find_provider_revision:
  "ctx_string (fst (Find_provider d ctx in_req service)) CTX_REQUEST_REVISION
     = ctx_string ctx CTX_REQUEST_REVISION"
  by (simp add: Find_provider_def Let_def ctx_string_def SetTargetDomainProject_def SetContext_def)

lemma Find_consumer_early:
  "Find_consumer d w ctx in_req = Inl (resp, err) \<Longrightarrow> Code_resp (Response_find resp) \<noteq> Response_SUCCESS"
  by (auto simp: Find_consumer_def Let_def FindFailure_def CreateResponse_def
      split: if_splits prod.splits option.splits)

lemma Find_dependency_early:
  "Find_dependency d w ctx in_req service provider item = Inl (Return (resp, err), w')
     \<Longrightarrow> Code_resp (Response_find resp) \<noteq> Response_SUCCESS"
  by (auto simp: Find_dependency_def FindFailure_def CreateResponse_def
      split: list.splits if_splits prod.splits option.splits)

lemma Find_success:
  assumes run: "Find d ctx in_req w = (Return (resp, err), ctx', w')"
    and ok: "Code_resp (Response_find resp) = Response_SUCCESS"
  shows "\<exists>service ctx1 provider item.
           Find_consumer d w ctx in_req = Inr service
         \<and> Find_provider d ctx in_req service = (ctx1, provider)
         \<and> FindInstances_Get d w ctx1 service provider (Tags in_req)
               (ctx_string ctx CTX_REQUEST_REVISION) = (Some item, None)
         \<and> Find_dependency d w ctx1 in_req service provider item = Inr w'
         \<and> ctx' = SetContext ctx1 CTX_RESPONSE_REVISION (Rev item)
         \<and> Instances_find resp
             = (if ctx_string ctx CTX_REQUEST_REVISION = Rev item then [] else Instances_item item)
         \<and> err = None"
proof (cases "ValidateFind d in_req")
  case (Some e)
  with run ok show ?thesis
    by (auto simp: Find_def FindFailure_def CreateResponse_def)
next
  case None
  show ?thesis
  proof (cases "Find_consumer d w ctx in_req")
    case (Inl early)
    with run None have "early = (resp, err)" by (simp add: Find_def)
    with Inl have "Find_consumer d w ctx in_req = Inl (resp, err)" by simp
    from Find_consumer_early [OF this] ok show ?thesis by simp
  next
    case (Inr service)
    obtain ctx1 provider where prov: "Find_provider d ctx in_req service = (ctx1, provider)"
      by (cases "Find_provider d ctx in_req service")
    have rev: "ctx_string ctx1 CTX_REQUEST_REVISION = ctx_string ctx CTX_REQUEST_REVISION"
      using Find_provider_revision [of d ctx in_req service] prov by simp
    obtain item gerr where get: "FindInstances_Get d w ctx1 service provider (Tags in_req)
               (ctx_string ctx CTX_REQUEST_REVISION) = (item, gerr)"
      by (cases "FindInstances_Get d w ctx1 service provider (Tags in_req)
               (ctx_string ctx CTX_REQUEST_REVISION)")
    from run None Inr prov rev get ok obtain it where it: "item = Some it" "gerr = None"
      by (cases item; cases gerr)
         (auto simp: Find_def Let_def FindFailure_def CreateResponse_def)
    show ?thesis
    proof (cases "Find_dependency d w ctx1 in_req service provider it")
      case (Inl early)
      with run None Inr prov rev get it ok show ?thesis
        by (cases early) (auto simp: Find_def Let_def dest: Find_dependency_early)
    next
      case (Inr w1)
      with run None \<open>Find_consumer d w ctx in_req = Inr service\<close> prov rev get it
      show ?thesis
        by (auto simp: Find_def Let_def)
    qed
  qed
qed

lemmas Find_defs = Find_def Find_consumer_def Find_provider_def Find_provider_key_def
  findFlag_def
  Find_dependency_def reshapeProviderKey_def FindFailure_def CreateResponse_def
  ParseDomainProject_def ParseDomain_def ParseProject_def ParseTargetDomainProject_def
  SetTargetDomainProject_def SetContext_def ctx_string_def

lemma Register_not_rejected:
  assumes v: "Validate d in_req = None"
    and e: "InstanceExist d w ctx (Instance in_req) = ([], None)"
    and pre: "preProcessHealthCheck (preProcessStamp d ctx (Instance in_req)) = Inr i'"
  shows "Register d ctx in_req w \<noteq>
           (Return (RegisterFailure ErrInvalidParams
                      ''Invalid 'healthCheck' settings in request body.'', None), w, [])"
  by (auto simp: Register_fresh [OF v e] preProcessRegisterInstance_def Let_def pre
        RegisterFailure_def CreateResponseWithSCErr_def CreateResponse_def NewError_def
        Register_admit_def Register_commit_def
        split: prod.splits option.splits sum.splits if_splits outcome.splits)

lemma preProcessHealthCheck_other_mode:
  assumes "HealthCheck inst = Some hc" and "Mode hc \<noteq> CHECK_BY_HEARTBEAT"
  shows "\<exists>i'. preProcessHealthCheck inst = Inr i'"
  using assms by (cases "Mode hc") (simp_all add: preProcessHealthCheck_def Let_def)

subsection \<open>Find: the run on a given provider key\<close>

text \<open>What Find returns once the request is valid and the consumer is found, from the
  answer of the cache for the provider key and of the dependency writer.\<close>

lemma Find_run:
  assumes v: "ValidateFind d in_req = None"
    and c: "Find_consumer d w ctx in_req = Inr service"
    and p: "Find_provider d ctx in_req service = (ctx1, provider)"
    and g: "FindInstances_Get d w ctx1 service provider (Tags in_req)
              (ctx_string ctx CTX_REQUEST_REVISION) = (Some item, None)"
    and dep: "Find_dependency d w ctx1 in_req service provider item = Inr w'"
  shows "Find d ctx in_req w =
           (Return (\<lparr>Response_find = CreateResponse Response_SUCCESS
                                          ''Query service instances successfully.'',
                      Instances_find = (if ctx_string ctx CTX_REQUEST_REVISION = Rev item then []
                                        else Instances_item item)\<rparr>, None),
            SetContext ctx1 CTX_RESPONSE_REVISION (Rev item), w')"
proof -
  have rev: "ctx_string ctx1 CTX_REQUEST_REVISION = ctx_string ctx CTX_REQUEST_REVISION"
    using Find_provider_revision [of d ctx in_req service] p by simp
  show ?thesis
    by (simp add: Find_def v c p rev g dep Let_def)
qed

lemma Find_provider_shared:
  assumes "IsShared d (Find_provider_key ctx in_req service)"
  shows "Find_provider d ctx in_req service
           = (ctx, (Find_provider_key ctx in_req service)\<lparr>Environment := Service_Environment d\<rparr>)"
  using assms by (simp add: Find_provider_def Let_def)

lemma Find_provider_own:
  assumes "\<not> IsShared d (Find_provider_key ctx in_req service)"
  shows "Find_provider d ctx in_req service
           = (SetTargetDomainProject ctx (ParseDomain ctx) (ParseProject ctx),
              (Find_provider_key ctx in_req service)\<lparr>Tenant := ParseDomainProject ctx\<rparr>)"
  using assms
  by (simp add: Find_provider_def Let_def ParseTargetDomainProject_def ParseDomainProject_def
      SetTargetDomainProject_def SetContext_def ctx_string_def)


lemma Find_absent:
  assumes v: "ValidateFind d in_req = None"
    and c: "Find_consumer d w ctx in_req = Inr service"
    and p: "Find_provider d ctx in_req service = (ctx1, provider)"
    and g: "FindInstances_Get d w ctx1 service provider (Tags in_req)
              (ctx_string ctx CTX_REQUEST_REVISION) = (None, None)"
  shows "Find d ctx in_req w =
           (Return (FindFailure ErrServiceNotExists
                      (findFlag d ctx in_req service provider
                         @ '' failed, provider does not exist.''), None), ctx1, w)"
proof -
  have rev: "ctx_string ctx1 CTX_REQUEST_REVISION = ctx_string ctx CTX_REQUEST_REVISION"
    using Find_provider_revision [of d ctx in_req service] p by simp
  show ?thesis
    by (simp add: Find_def v c p rev g Let_def)
qed

section \<open>The claims\<close>

subsection \<open>C1: the commit of Register\<close>

text \<open>
  C1: whenever Register reaches its transaction, that transaction is the only one of the
  call, it comes right after the lease grant, it holds exactly two puts, of the instance
  key and of the lease key, both under the lease id the grant answered (the lease key
  holding that id printed), and its only compare asks that the version of the owning
  service key is not 0. Hence, over the transactional store, every reachable state pairs
  instance key and lease key: both absent, or both present under the same granted lease;
  and a key that Register has written or changed is one of these two, written while the
  service key was present.
\<close>

theorem Register_commit_atomic:
  fixes d :: "store deps"
  shows "(Register d ctx in_req s = (r, s', evs) \<and> EvTxnWithCmp ops cmps res \<in> set evs \<longrightarrow>
            (\<exists>ttl data leaseID pre post.
                evs = pre @ [EvLeaseGrant ttl (Inr leaseID), EvTxnWithCmp ops cmps res] @ post
              \<and> (\<forall>e \<in> set (pre @ post). \<not> is_TxnWithCmp e)
              \<and> ops = [OpPut (GenerateInstanceKey (ParseDomainProject ctx)
                                 (ServiceId (Instance in_req))
                                 (InstanceId (fst (preProcessRegisterInstance d s ctx
                                                     (Instance in_req)))))
                           data leaseID,
                         OpPut (GenerateInstanceLeaseKey (ParseDomainProject ctx)
                                 (ServiceId (Instance in_req))
                                 (InstanceId (fst (preProcessRegisterInstance d s ctx
                                                     (Instance in_req)))))
                           (FormatInt leaseID) leaseID]
              \<and> cmps = [OpCmp (CmpVer (GenerateServiceKey (ParseDomainProject ctx)
                                          (ServiceId (Instance in_req))))
                           CMP_NOT_EQUAL 0]))
       \<and> (reachable s \<longrightarrow> sibling_inv s)
       \<and> (store_backend d \<and> Register d ctx in_req s = (r, s', evs) \<and> kvs s' k \<noteq> kvs s k \<longrightarrow>
            kvs s (GenerateServiceKey (ParseDomainProject ctx) (ServiceId (Instance in_req))) \<noteq> None
          \<and> (k = GenerateInstanceKey (ParseDomainProject ctx) (ServiceId (Instance in_req))
                   (InstanceId (fst (preProcessRegisterInstance d s ctx (Instance in_req))))
             \<or> k = GenerateInstanceLeaseKey (ParseDomainProject ctx) (ServiceId (Instance in_req))
                   (InstanceId (fst (preProcessRegisterInstance d s ctx (Instance in_req))))))"
proof -
  let ?inst = "fst (preProcessRegisterInstance d s ctx (Instance in_req))"
  have sid: "ServiceId ?inst = ServiceId (Instance in_req)"
    by (auto simp: preProcessRegisterInstance_def preProcessHealthCheck_def Let_def
        split: sum.splits prod.splits option.splits CheckMode.splits if_splits)
  have opts: "Register_opts ctx ?inst data leaseID =
               [OpPut (GenerateInstanceKey (ParseDomainProject ctx) (ServiceId (Instance in_req))
                         (InstanceId ?inst)) data leaseID,
                OpPut (GenerateInstanceLeaseKey (ParseDomainProject ctx) (ServiceId (Instance in_req))
                         (InstanceId ?inst)) (FormatInt leaseID) leaseID]" for data leaseID
    by (simp add: Register_opts_def Let_def sid)
  have cmps: "Register_cmps ctx ?inst =
               [OpCmp (CmpVer (GenerateServiceKey (ParseDomainProject ctx)
                                 (ServiceId (Instance in_req)))) CMP_NOT_EQUAL 0]"
    by (simp add: Register_cmps_def sid)
  show ?thesis
    using Register_txn_shape [of d ctx in_req s r s' evs ops cmps res]
      reachable_sibling_inv [of s]
      Register_writes_need_service [of d ctx in_req s r s' evs k]
    unfolding opts cmps by blast
qed

theorem Register_commit_atomic_witness:
  "reachable (fst (snd (Register demo_deps demo_ctx \<lparr>Instance = demo_instance None\<rparr> demo_store)))
   \<and> sibling_inv (fst (snd (Register demo_deps demo_ctx \<lparr>Instance = demo_instance None\<rparr> demo_store)))
   \<and> kvs (fst (snd (Register demo_deps demo_ctx \<lparr>Instance = demo_instance None\<rparr> demo_store)))
        ''/inst/default/default/s1/i1''
      = Some \<lparr>Value_kv = ''i1'', Lease_kv = 1, Version_kv = 1\<rparr>
   \<and> kvs (fst (snd (Register demo_deps demo_ctx \<lparr>Instance = demo_instance None\<rparr> demo_store)))
        ''/lease/default/default/s1/i1''
      = Some \<lparr>Value_kv = ''1'', Lease_kv = 1, Version_kv = 1\<rparr>
   \<and> snd (snd (Register demo_deps demo_ctx \<lparr>Instance = demo_instance None\<rparr> demo_store))
      = [EvApply4Quotas (NewApplyQuotaResource ''default/default'' ''s1'' 1),
         EvLeaseGrant 120 (Inr 1),
         EvTxnWithCmp
           [OpPut ''/inst/default/default/s1/i1'' ''i1'' 1,
            OpPut ''/lease/default/default/s1/i1'' ''1'' 1]
           [OpCmp (CmpVer ''/service/default/default/s1'') CMP_NOT_EQUAL 0]
           (Inr True),
         EvReportUsedQuota (Some \<lparr>Err = None\<rparr>),
         EvQuotaClose]"
proof -
  let ?req = "\<lparr>Instance = demo_instance None\<rparr>"
  let ?s' = "fst (snd (Register demo_deps demo_ctx ?req demo_store))"
  obtain r evs where run: "Register demo_deps demo_ctx ?req demo_store = (r, ?s', evs)"
    by (cases "Register demo_deps demo_ctx ?req demo_store") simp
  have reach: "reachable ?s'"
    using reachable_demo_store store_backend_demo run by (rule reachable.register)
  have "reachable ?s' \<longrightarrow> sibling_inv ?s'"
    using Register_commit_atomic [of _ _ _ ?s'] by blast
  with reach have inv: "sibling_inv ?s'" by simp
  have "kvs ?s' ''/inst/default/default/s1/i1''
          = Some \<lparr>Value_kv = ''i1'', Lease_kv = 1, Version_kv = 1\<rparr>
      \<and> kvs ?s' ''/lease/default/default/s1/i1''
          = Some \<lparr>Value_kv = ''1'', Lease_kv = 1, Version_kv = 1\<rparr>"
    by (simp add: Register_defs demo_defs store_defs Let_def FormatInt_def string_of_nat.simps)
  moreover have "snd (snd (Register demo_deps demo_ctx ?req demo_store))
      = [EvApply4Quotas (NewApplyQuotaResource ''default/default'' ''s1'' 1),
         EvLeaseGrant 120 (Inr 1),
         EvTxnWithCmp
           [OpPut ''/inst/default/default/s1/i1'' ''i1'' 1,
            OpPut ''/lease/default/default/s1/i1'' ''1'' 1]
           [OpCmp (CmpVer ''/service/default/default/s1'') CMP_NOT_EQUAL 0]
           (Inr True),
         EvReportUsedQuota (Some \<lparr>Err = None\<rparr>),
         EvQuotaClose]"
    by (simp add: Register_defs demo_defs store_defs Let_def FormatInt_def string_of_nat.simps)
  ultimately show ?thesis using reach inv by simp
qed

subsection \<open>C2: registering an instance that exists\<close>

text \<open>
  C2: for a valid Register request for which the existence check finds a live instance
  (it answers the id of the instance, and no error), Register answers SUCCESS with that
  id, leaves the world as it is and calls neither the quota plugin nor the backend: no
  lease grant, no transaction. Registering the same request again answers the same.
\<close>

theorem Register_existing_instance:
  assumes "Validate d in_req = None"
    and "InstanceExist d w ctx (Instance in_req) = (oldInstanceId, None)"
    and "oldInstanceId \<noteq> []"
  shows "Register d ctx in_req w =
           (Return (\<lparr>Response = CreateResponse Response_SUCCESS ''instance already exists'',
                      InstanceId_resp = oldInstanceId\<rparr>, None), w, [])
       \<and> Register d ctx in_req (fst (snd (Register d ctx in_req w))) = Register d ctx in_req w"
  using assms by (simp add: Register_def)

theorem Register_existing_instance_witness:
  "Register (demo_deps\<lparr>InstanceExist := \<lambda>w ctx instance. (''I1'', None)\<rparr>) demo_ctx
     \<lparr>Instance = demo_instance None\<rparr> demo_store
   = (Return (\<lparr>Response = CreateResponse Response_SUCCESS ''instance already exists'',
                InstanceId_resp = ''I1''\<rparr>, None), demo_store, [])"
proof -
  let ?d = "demo_deps\<lparr>InstanceExist := \<lambda>w ctx instance. (''I1'', None)\<rparr>"
  let ?req = "\<lparr>Instance = demo_instance None\<rparr>"
  have 1: "Validate ?d ?req = None"
    by (simp add: demo_deps_def)
  have 2: "InstanceExist ?d demo_store demo_ctx (Instance ?req) = (''I1'', None)"
    by simp
  have 3: "''I1'' \<noteq> []"
    by simp
  from Register_existing_instance [OF 1 2 3] show ?thesis
    by (rule conjunct1)
qed

subsection \<open>C3: the health-check interval check\<close>

text \<open>
  C3 says Register fails with InvalidParams exactly when interval * (retry_times + 1) is
  \<open>\<le> 0\<close> or \<open>\<ge> 2^31\<close>, whatever the health-check mode. The source checks the
  product in the HEARTBEAT mode only, and against \<^verbatim>\<open>math.MaxInt32\<close>, which is
  \<open>2^31 - 1\<close>. First, two requests on which the claim as stated fails: in the PLATFORM
  mode a product of \<open>2^32 - 2\<close> is admitted, and in the HEARTBEAT mode the product
  \<open>2^31 - 1\<close>, which lies inside the open interval, is rejected.
\<close>

theorem Register_interval_check_counterexample:
  "fst (Register demo_deps demo_ctx
          \<lparr>Instance = demo_instance
             (Some \<lparr>Mode = CHECK_BY_PLATFORM, Interval = 2147483647, Times = 1\<rparr>)\<rparr>
          demo_store)
     = Return (\<lparr>Response = CreateResponse Response_SUCCESS ''Register service instance successfully.'',
                InstanceId_resp = ''i1''\<rparr>, None)
   \<and> sint (2147483647 :: int32) * (sint (1 :: int32) + 1) \<ge> 2 ^ 31
   \<and> fst (Register demo_deps demo_ctx
          \<lparr>Instance = demo_instance
             (Some \<lparr>Mode = CHECK_BY_HEARTBEAT, Interval = 2147483647, Times = 0\<rparr>)\<rparr>
          demo_store)
     = Return (RegisterFailure ErrInvalidParams
                 ''Invalid 'healthCheck' settings in request body.'', None)
   \<and> 0 < sint (2147483647 :: int32) * (sint (0 :: int32) + 1)
   \<and> sint (2147483647 :: int32) * (sint (0 :: int32) + 1) < 2 ^ 31"
  by (simp add: Register_defs demo_defs store_defs Let_def)

text \<open>
  C3 as amended: for a request that reaches preprocessing (valid, no existing instance
  found) with a health check: in the HEARTBEAT mode, when the product
  interval * (times + 1) fits a signed 32-bit integer, Register answers with the
  InvalidParams response of the health check, untouched world and no call to any
  collaborator, exactly when the product is \<open>\<le> 0\<close> or \<open>\<ge> 2^31 - 1\<close>; in any other
  mode Register never gives that answer, whatever the product.
\<close>

theorem Register_heartbeat_interval_check:
  assumes "Validate d in_req = None"
    and "InstanceExist d w ctx (Instance in_req) = ([], None)"
    and "HealthCheck (Instance in_req) = Some hc"
  shows "(Mode hc = CHECK_BY_HEARTBEAT
          \<and> - (2 ^ 31) \<le> sint (Interval hc) * (sint (Times hc) + 1)
          \<and> sint (Interval hc) * (sint (Times hc) + 1) < 2 ^ 31
          \<longrightarrow> (Register d ctx in_req w =
                  (Return (RegisterFailure ErrInvalidParams
                             ''Invalid 'healthCheck' settings in request body.'', None), w, [])
               \<longleftrightarrow> (sint (Interval hc) * (sint (Times hc) + 1) \<le> 0
                    \<or> sint (Interval hc) * (sint (Times hc) + 1) \<ge> 2 ^ 31 - 1)))
       \<and> (Mode hc \<noteq> CHECK_BY_HEARTBEAT
          \<longrightarrow> Register d ctx in_req w \<noteq>
                  (Return (RegisterFailure ErrInvalidParams
                             ''Invalid 'healthCheck' settings in request body.'', None), w, []))"
proof (intro conjI impI)
  assume h: "Mode hc = CHECK_BY_HEARTBEAT
          \<and> - (2 ^ 31) \<le> sint (Interval hc) * (sint (Times hc) + 1)
          \<and> sint (Interval hc) * (sint (Times hc) + 1) < 2 ^ 31"
  then have "sint (Interval hc * (Times hc + 1)) = sint (Interval hc) * (sint (Times hc) + 1)"
    by (simp add: sint_product_exact)
  moreover from h have "Mode hc = CHECK_BY_HEARTBEAT" by simp
  note Register_reject_iff [OF assms this]
  ultimately show "Register d ctx in_req w =
                  (Return (RegisterFailure ErrInvalidParams
                             ''Invalid 'healthCheck' settings in request body.'', None), w, [])
               \<longleftrightarrow> (sint (Interval hc) * (sint (Times hc) + 1) \<le> 0
                    \<or> sint (Interval hc) * (sint (Times hc) + 1) \<ge> 2 ^ 31 - 1)"
    by (simp add: MaxInt32_def)
next
  assume "Mode hc \<noteq> CHECK_BY_HEARTBEAT"
  with assms(3) have "\<exists>i'. preProcessHealthCheck (preProcessStamp d ctx (Instance in_req)) = Inr i'"
    by (simp add: preProcessHealthCheck_other_mode)
  then obtain i' where "preProcessHealthCheck (preProcessStamp d ctx (Instance in_req)) = Inr i'"
    by blast
  from Register_not_rejected [OF assms(1,2) this]
  show "Register d ctx in_req w \<noteq>
                  (Return (RegisterFailure ErrInvalidParams
                             ''Invalid 'healthCheck' settings in request body.'', None), w, [])" .
qed

theorem Register_heartbeat_interval_check_witness:
  "Register demo_deps demo_ctx
     \<lparr>Instance = demo_instance (Some \<lparr>Mode = CHECK_BY_HEARTBEAT, Interval = 0, Times = 0\<rparr>)\<rparr>
     demo_store
   = (Return (RegisterFailure ErrInvalidParams
                ''Invalid 'healthCheck' settings in request body.'', None), demo_store, [])
   \<and> Register demo_deps demo_ctx
     \<lparr>Instance = demo_instance (Some \<lparr>Mode = CHECK_BY_PLATFORM, Interval = 0, Times = 0\<rparr>)\<rparr>
     demo_store
   \<noteq> (Return (RegisterFailure ErrInvalidParams
                ''Invalid 'healthCheck' settings in request body.'', None), demo_store, [])"
proof -
  let ?hc = "\<lparr>Mode = CHECK_BY_HEARTBEAT, Interval = 0, Times = 0\<rparr>"
  let ?req = "\<lparr>Instance = demo_instance (Some ?hc)\<rparr>"
  let ?hc' = "\<lparr>Mode = CHECK_BY_PLATFORM, Interval = 0, Times = 0\<rparr>"
  let ?req' = "\<lparr>Instance = demo_instance (Some ?hc')\<rparr>"
  have 1: "Validate demo_deps ?req = None" and q1: "Validate demo_deps ?req' = None"
    by (simp_all add: demo_deps_def)
  have 2: "InstanceExist demo_deps demo_store demo_ctx (Instance ?req) = ([], None)"
    and q2: "InstanceExist demo_deps demo_store demo_ctx (Instance ?req') = ([], None)"
    by (simp_all add: demo_deps_def)
  have 3: "HealthCheck (Instance ?req) = Some ?hc"
    and q3: "HealthCheck (Instance ?req') = Some ?hc'"
    by (simp_all add: demo_instance_def)
  have 4: "Mode ?hc = CHECK_BY_HEARTBEAT
          \<and> - (2 ^ 31) \<le> sint (Interval ?hc) * (sint (Times ?hc) + 1)
          \<and> sint (Interval ?hc) * (sint (Times ?hc) + 1) < 2 ^ 31"
    by simp
  have 5: "sint (Interval ?hc) * (sint (Times ?hc) + 1) \<le> 0"
    by simp
  have q4: "Mode ?hc' \<noteq> CHECK_BY_HEARTBEAT"
    by simp
  from Register_heartbeat_interval_check [OF 1 2 3] 4 5
  have a: "Register demo_deps demo_ctx ?req demo_store
   = (Return (RegisterFailure ErrInvalidParams
                ''Invalid 'healthCheck' settings in request body.'', None), demo_store, [])"
    by blast
  from Register_heartbeat_interval_check [OF q1 q2 q3] q4
  have b: "Register demo_deps demo_ctx ?req' demo_store
   \<noteq> (Return (RegisterFailure ErrInvalidParams
                ''Invalid 'healthCheck' settings in request body.'', None), demo_store, [])"
    by blast
  from a b show ?thesis by (rule conjI)
qed

subsection \<open>C4: the commit transaction is refused\<close>

text \<open>
  C4 says that Register revokes the lease it was granted when the transaction reports
  that it did not succeed. The source has no such call: the run below, on a store
  without the service record, ends with the lease 1 still granted and with no revoke
  among the calls made.
\<close>

theorem Register_commit_refused_counterexample:
  "Register demo_deps demo_ctx \<lparr>Instance = demo_instance None\<rparr> empty_store
     = (Return (RegisterFailure ErrServiceNotExists ''Service does not exist.'', None),
        empty_store\<lparr>leases := [1 \<mapsto> 120], next_lease := 2\<rparr>,
        [EvApply4Quotas (NewApplyQuotaResource ''default/default'' ''s1'' 1),
         EvLeaseGrant 120 (Inr 1),
         EvTxnWithCmp
           [OpPut ''/inst/default/default/s1/i1'' ''i1'' 1,
            OpPut ''/lease/default/default/s1/i1'' ''1'' 1]
           [OpCmp (CmpVer ''/service/default/default/s1'') CMP_NOT_EQUAL 0]
           (Inr False),
         EvQuotaClose])"
  by (simp add: Register_defs demo_defs store_defs Let_def FormatInt_def string_of_nat.simps)

text \<open>
  C4 as amended: when the commit transaction of Register reports succeeded = false,
  Register answers ServiceNotExists with a nil error (not an internal error), makes no
  lease revoke and no quota report, and, over the transactional store, leaves the keys
  as they were before the call (so neither the instance key nor the lease key is
  written) while the lease it was granted stays granted until it expires.
\<close>

theorem Register_commit_refused:
  fixes d :: "store deps"
  assumes "Register d ctx in_req w = (r, w', evs)"
    and "EvTxnWithCmp ops cmps (Inr False) \<in> set evs"
  shows "r = Return (RegisterFailure ErrServiceNotExists ''Service does not exist.'', None)
       \<and> (\<forall>l. EvLeaseRevoke l \<notin> set evs)
       \<and> (\<forall>rep. EvReportUsedQuota rep \<notin> set evs)
       \<and> (store_backend d \<longrightarrow>
            kvs w' = kvs w \<and> (\<exists>ttl. leases w' = (leases w)(next_lease w \<mapsto> ttl)))"
proof -
  have r: "r = Return (RegisterFailure ErrServiceNotExists ''Service does not exist.'', None)"
    using Register_txn_result [OF assms] by simp
  have ev: "(\<forall>l. EvLeaseRevoke l \<notin> set evs) \<and> (\<forall>rep. EvReportUsedQuota rep \<notin> set evs)"
    using Register_txn_events [OF assms] by (auto split: if_splits)
  from Register_txn_backend [OF assms] obtain ttl leaseID w1 where
    grant: "LeaseGrant d w ttl = (Inr leaseID, w1)"
    and txn: "TxnWithCmp d w1 ops cmps = (Inr False, w')"
    by blast
  have "kvs w' = kvs w \<and> (\<exists>ttl. leases w' = (leases w)(next_lease w \<mapsto> ttl))"
    if sb: "store_backend d"
  proof -
    from store_backend_txn [OF sb txn] have "w' = w1" by simp
    with store_backend_grant [OF sb grant] show ?thesis by auto
  qed
  with r ev show ?thesis by blast
qed

theorem Register_commit_refused_witness:
  "fst (Register demo_deps demo_ctx \<lparr>Instance = demo_instance None\<rparr> empty_store)
     = Return (RegisterFailure ErrServiceNotExists ''Service does not exist.'', None)
   \<and> kvs (fst (snd (Register demo_deps demo_ctx \<lparr>Instance = demo_instance None\<rparr> empty_store)))
     = kvs empty_store"
proof -
  let ?req = "\<lparr>Instance = demo_instance None\<rparr>"
  obtain r w' evs where run: "Register demo_deps demo_ctx ?req empty_store = (r, w', evs)"
    by (cases "Register demo_deps demo_ctx ?req empty_store")
  have "\<exists>ops cmps. EvTxnWithCmp ops cmps (Inr False)
           \<in> set (snd (snd (Register demo_deps demo_ctx ?req empty_store)))"
    by (simp add: Register_defs demo_defs store_defs Let_def)
  then obtain ops cmps where ev: "EvTxnWithCmp ops cmps (Inr False) \<in> set evs"
    using run by auto
  from Register_commit_refused [OF run ev] store_backend_demo run show ?thesis
    by simp
qed

subsection \<open>C5: one result for each distinct pair\<close>

text \<open>
  C5 says that a HeartbeatSet request with K distinct pairs (service_id, instance_id)
  gets exactly K results. The source keys its duplicate check by the two ids joined
  without a separator, so two different pairs with the same concatenation count as one:
  the request below holds two distinct pairs, and the second one is dropped as a
  duplicate of the first (lemma \<open>HeartbeatSet_schedule_length\<close> counts the tasks
  started in general: one for each distinct concatenation).
\<close>

theorem HeartbeatSet_concatenated_key:
  "HeartbeatSet (demo_deps\<lparr>Arrival := \<lambda>xs. xs\<rparr>) demo_store demo_ctx
     \<lparr>Instances_req = [\<lparr>ServiceId_hb = ''ab'', InstanceId_hb = ''c''\<rparr>,
                        \<lparr>ServiceId_hb = ''a'', InstanceId_hb = ''bc''\<rparr>]\<rparr>
     = Some \<lparr>Response_hbs = CreateResponse Response_SUCCESS ''Heartbeat set successfully.'',
             Instances_hbs = [\<lparr>ServiceId_rst = ''ab'', InstanceId_rst = ''c'', ErrMessage = []\<rparr>]\<rparr>
   \<and> card {(''ab'', ''c''), (''a'', ''bc'')} = 2"
  by (simp add: HeartbeatSet_defs demo_defs Let_def)

subsection \<open>C6: the top-level code of HeartbeatSet\<close>

text \<open>
  C6: for a non-empty HeartbeatSet request, whatever the order in which the results of
  the tasks arrive, the call returns, and it returns the results of all the tasks it
  started; if at least one result carries an error message the top-level code is
  InstanceNotExists; if at least one result is a success and none carries an error
  message, the top-level code is SUCCESS.
\<close>

theorem HeartbeatSet_aggregation:
  assumes "\<forall>xs. mset (Arrival d xs) = mset xs"
    and "Instances_req in_req \<noteq> []"
  shows "\<exists>resp. HeartbeatSet d w ctx in_req = Some resp
     \<and> mset (Instances_hbs resp)
         = mset (map (getHeartbeatFunc d w ctx (ParseDomainProject ctx))
                   (snd (HeartbeatSet_schedule Map.empty 0 (Instances_req in_req))))
     \<and> ((\<exists>r \<in> set (Instances_hbs resp). ErrMessage r \<noteq> [])
           \<longrightarrow> Code_resp (Response_hbs resp) = ErrInstanceNotExists)
     \<and> ((\<exists>r \<in> set (Instances_hbs resp). ErrMessage r = [])
          \<and> (\<forall>r \<in> set (Instances_hbs resp). ErrMessage r = [])
           \<longrightarrow> Code_resp (Response_hbs resp) = Response_SUCCESS)"
proof -
  let ?results = "Arrival d (map (getHeartbeatFunc d w ctx (ParseDomainProject ctx))
                               (snd (HeartbeatSet_schedule Map.empty 0 (Instances_req in_req))))"
  let ?resp = "\<lparr>Response_hbs =
                 (if (\<exists>r \<in> set ?results. ErrMessage r \<noteq> [])
                  then CreateResponse ErrInstanceNotExists ''Heartbeat set failed.''
                  else CreateResponse Response_SUCCESS ''Heartbeat set successfully.''),
               Instances_hbs = ?results\<rparr>"
  have "HeartbeatSet d w ctx in_req = Some ?resp"
    using HeartbeatSet_returns [OF assms, of w ctx] by (simp add: Let_def)
  moreover have "mset (Instances_hbs ?resp)
         = mset (map (getHeartbeatFunc d w ctx (ParseDomainProject ctx))
                   (snd (HeartbeatSet_schedule Map.empty 0 (Instances_req in_req))))"
    using assms(1) by simp
  moreover have "(\<exists>r \<in> set (Instances_hbs ?resp). ErrMessage r \<noteq> [])
           \<longrightarrow> Code_resp (Response_hbs ?resp) = ErrInstanceNotExists"
    by (simp add: CreateResponse_def)
  moreover have "(\<exists>r \<in> set (Instances_hbs ?resp). ErrMessage r = [])
          \<and> (\<forall>r \<in> set (Instances_hbs ?resp). ErrMessage r = [])
           \<longrightarrow> Code_resp (Response_hbs ?resp) = Response_SUCCESS"
    by (auto simp: CreateResponse_def)
  ultimately show ?thesis by blast
qed

theorem HeartbeatSet_aggregation_witness:
  "\<exists>resp. HeartbeatSet demo_deps demo_store demo_ctx
       \<lparr>Instances_req = [\<lparr>ServiceId_hb = ''s1'', InstanceId_hb = ''I1''\<rparr>,
                          \<lparr>ServiceId_hb = ''s1'', InstanceId_hb = ''I1''\<rparr>,
                          \<lparr>ServiceId_hb = ''s1'', InstanceId_hb = ''I_missing''\<rparr>]\<rparr> = Some resp
     \<and> Code_resp (Response_hbs resp) = ErrInstanceNotExists
     \<and> mset (Instances_hbs resp)
         = {#\<lparr>ServiceId_rst = ''s1'', InstanceId_rst = ''I1'', ErrMessage = []\<rparr>,
             \<lparr>ServiceId_rst = ''s1'', InstanceId_rst = ''I_missing'',
              ErrMessage = ''leaseId not exist''\<rparr>#}"
proof -
  let ?req = "\<lparr>Instances_req = [\<lparr>ServiceId_hb = ''s1'', InstanceId_hb = ''I1''\<rparr>,
                          \<lparr>ServiceId_hb = ''s1'', InstanceId_hb = ''I1''\<rparr>,
                          \<lparr>ServiceId_hb = ''s1'', InstanceId_hb = ''I_missing''\<rparr>]\<rparr>"
  have 1: "\<forall>xs. mset (Arrival demo_deps xs) = mset xs"
    by (simp add: demo_deps_def)
  have 2: "Instances_req ?req \<noteq> []"
    by simp
  from HeartbeatSet_aggregation [OF 1 2, of demo_store demo_ctx] obtain resp where
    ret: "HeartbeatSet demo_deps demo_store demo_ctx ?req = Some resp"
    and res: "mset (Instances_hbs resp)
         = mset (map (getHeartbeatFunc demo_deps demo_store demo_ctx (ParseDomainProject demo_ctx))
                   (snd (HeartbeatSet_schedule Map.empty 0 (Instances_req ?req))))"
    and fail: "(\<exists>r \<in> set (Instances_hbs resp). ErrMessage r \<noteq> [])
           \<longrightarrow> Code_resp (Response_hbs resp) = ErrInstanceNotExists"
    by blast
  have tasks: "map (getHeartbeatFunc demo_deps demo_store demo_ctx (ParseDomainProject demo_ctx))
                   (snd (HeartbeatSet_schedule Map.empty 0 (Instances_req ?req)))
        = [\<lparr>ServiceId_rst = ''s1'', InstanceId_rst = ''I1'', ErrMessage = []\<rparr>,
           \<lparr>ServiceId_rst = ''s1'', InstanceId_rst = ''I_missing'',
              ErrMessage = ''leaseId not exist''\<rparr>]"
    by (simp add: getHeartbeatFunc_def demo_deps_def)
  from res have m: "mset (Instances_hbs resp)
         = {#\<lparr>ServiceId_rst = ''s1'', InstanceId_rst = ''I1'', ErrMessage = []\<rparr>,
             \<lparr>ServiceId_rst = ''s1'', InstanceId_rst = ''I_missing'',
              ErrMessage = ''leaseId not exist''\<rparr>#}"
    unfolding tasks by simp
  then have "set_mset (mset (Instances_hbs resp))
         = set_mset {#\<lparr>ServiceId_rst = ''s1'', InstanceId_rst = ''I1'', ErrMessage = []\<rparr>,
             \<lparr>ServiceId_rst = ''s1'', InstanceId_rst = ''I_missing'',
              ErrMessage = ''leaseId not exist''\<rparr>#}"
    by (rule arg_cong)
  then have "\<exists>r \<in> set (Instances_hbs resp). ErrMessage r \<noteq> []"
    by simp
  with fail have "Code_resp (Response_hbs resp) = ErrInstanceNotExists"
    by blast
  with ret m show ?thesis by blast
qed

subsection \<open>C7: the revision of Find\<close>

text \<open>
  C7: every Find call that answers SUCCESS has read an entry of the find cache for the
  request, and has put the revision of that entry into the response context; if the
  revision the caller supplied equals it, the response carries no instances, and if the
  two differ, the response carries the instance list of the entry.
\<close>

theorem Find_revision:
  assumes "Find d ctx in_req w = (Return (resp, err), ctx', w')"
    and "Code_resp (Response_find resp) = Response_SUCCESS"
  shows "\<exists>service ctx1 provider item.
           Find_consumer d w ctx in_req = Inr service
         \<and> Find_provider d ctx in_req service = (ctx1, provider)
         \<and> FindInstances_Get d w ctx1 service provider (Tags in_req)
               (ctx_string ctx CTX_REQUEST_REVISION) = (Some item, None)
         \<and> ctx' CTX_RESPONSE_REVISION = Some (Rev item)
         \<and> (ctx_string ctx CTX_REQUEST_REVISION = Rev item \<longrightarrow> Instances_find resp = [])
         \<and> (ctx_string ctx CTX_REQUEST_REVISION \<noteq> Rev item
              \<longrightarrow> Instances_find resp = Instances_item item)"
proof -
  from Find_success [OF assms] obtain service ctx1 provider item where
    "Find_consumer d w ctx in_req = Inr service"
    and "Find_provider d ctx in_req service = (ctx1, provider)"
    and "FindInstances_Get d w ctx1 service provider (Tags in_req)
               (ctx_string ctx CTX_REQUEST_REVISION) = (Some item, None)"
    and c: "ctx' = SetContext ctx1 CTX_RESPONSE_REVISION (Rev item)"
    and i: "Instances_find resp
             = (if ctx_string ctx CTX_REQUEST_REVISION = Rev item then [] else Instances_item item)"
    by blast
  moreover from c have "ctx' CTX_RESPONSE_REVISION = Some (Rev item)"
    by (simp add: SetContext_def)
  moreover from i have "ctx_string ctx CTX_REQUEST_REVISION = Rev item \<longrightarrow> Instances_find resp = []"
    by simp
  moreover from i have "ctx_string ctx CTX_REQUEST_REVISION \<noteq> Rev item
              \<longrightarrow> Instances_find resp = Instances_item item"
    by simp
  ultimately show ?thesis by blast
qed

theorem Find_revision_witness:
  "fst (Find demo_deps (demo_ctx(CTX_REQUEST_REVISION \<mapsto> ''R1'')) (demo_find ''svc'') demo_store)
     = Return (\<lparr>Response_find = CreateResponse Response_SUCCESS
                                    ''Query service instances successfully.'',
                 Instances_find = []\<rparr>, None)
   \<and> fst (snd (Find demo_deps (demo_ctx(CTX_REQUEST_REVISION \<mapsto> ''R1'')) (demo_find ''svc'')
                 demo_store)) CTX_RESPONSE_REVISION = Some ''R1''
   \<and> fst (Find demo_deps (demo_ctx(CTX_REQUEST_REVISION \<mapsto> ''R0'')) (demo_find ''svc'') demo_store)
     = Return (\<lparr>Response_find = CreateResponse Response_SUCCESS
                                    ''Query service instances successfully.'',
                 Instances_find = [demo_instance None]\<rparr>, None)"
proof -
  let ?ctx = "demo_ctx(CTX_REQUEST_REVISION \<mapsto> ''R1'')"
  let ?resp = "\<lparr>Response_find = CreateResponse Response_SUCCESS
                                     ''Query service instances successfully.'',
                  Instances_find = []\<rparr>"
  have r1: "fst (Find demo_deps ?ctx (demo_find ''svc'') demo_store) = Return (?resp, None)"
    by (simp add: Find_defs demo_defs demo_find_def demo_item_def Let_def)
  have r0: "fst (Find demo_deps (demo_ctx(CTX_REQUEST_REVISION \<mapsto> ''R0'')) (demo_find ''svc'')
                  demo_store)
     = Return (\<lparr>Response_find = CreateResponse Response_SUCCESS
                                    ''Query service instances successfully.'',
                 Instances_find = [demo_instance None]\<rparr>, None)"
    by (simp add: Find_defs demo_defs demo_find_def demo_item_def Let_def)
  obtain ctx' w' where run: "Find demo_deps ?ctx (demo_find ''svc'') demo_store
               = (Return (?resp, None), ctx', w')"
    using r1 by (cases "Find demo_deps ?ctx (demo_find ''svc'') demo_store") simp
  have ok: "Code_resp (Response_find ?resp) = Response_SUCCESS"
    by (simp add: CreateResponse_def)
  from Find_revision [OF run ok] obtain service ctx1 provider item where
    get: "FindInstances_Get demo_deps demo_store ctx1 service provider (Tags (demo_find ''svc''))
               (ctx_string ?ctx CTX_REQUEST_REVISION) = (Some item, None)"
    and rev: "ctx' CTX_RESPONSE_REVISION = Some (Rev item)"
    by blast
  from get have "item = demo_item"
    by (simp add: demo_deps_def)
  with rev have "ctx' CTX_RESPONSE_REVISION = Some ''R1''"
    by (simp add: demo_item_def)
  with run r1 r0 show ?thesis by simp
qed

subsection \<open>C8: shared providers in Find\<close>

text \<open>
  C8: for a valid Find request whose consumer exists. When the provider key is one of
  the registry's shared services, its environment is overwritten with the registry's own
  environment and its tenant stays the target domain/project of the request context,
  which is left as it is; Find then answers from the cache entry of that key, whoever
  the caller is: SUCCESS with the instances of the entry (none when the requested
  revision is the entry's) and the entry's revision in the response context, and
  ServiceNotExists when the cache has no entry for that key. When the provider is not
  shared, the tenant of the provider key, and the target domain/project of the context,
  are reset to the caller's own domain/project, the environment stays the consumer's,
  and Find answers from the cache entry of that key in the same way. Conversely the
  instances of every successful Find are those of the cache entry read for the provider
  key so built.
\<close>

theorem Find_shared_provider:
  assumes "ValidateFind d in_req = None"
    and "Find_consumer d w ctx in_req = Inr service"
  shows
   "(IsShared d (Find_provider_key ctx in_req service) \<longrightarrow>
        Find_provider d ctx in_req service
          = (ctx, (Find_provider_key ctx in_req service)\<lparr>Environment := Service_Environment d\<rparr>)
      \<and> (Find_provider_key ctx in_req service)\<lparr>Environment := Service_Environment d\<rparr>
          = \<lparr>Tenant = ParseTargetDomainProject ctx, Environment = Service_Environment d,
             AppId = AppId_req in_req, ServiceName = ServiceName_req in_req,
             Alias = ServiceName_req in_req, Version_key = VersionRule in_req\<rparr>
      \<and> (\<forall>item w'.
            FindInstances_Get d w ctx service
              ((Find_provider_key ctx in_req service)\<lparr>Environment := Service_Environment d\<rparr>)
              (Tags in_req) (ctx_string ctx CTX_REQUEST_REVISION) = (Some item, None)
          \<and> Find_dependency d w ctx in_req service
              ((Find_provider_key ctx in_req service)\<lparr>Environment := Service_Environment d\<rparr>)
              item = Inr w'
          \<longrightarrow> Find d ctx in_req w =
                (Return (\<lparr>Response_find = CreateResponse Response_SUCCESS
                                               ''Query service instances successfully.'',
                           Instances_find =
                             (if ctx_string ctx CTX_REQUEST_REVISION = Rev item then []
                              else Instances_item item)\<rparr>, None),
                 SetContext ctx CTX_RESPONSE_REVISION (Rev item), w'))
      \<and> (FindInstances_Get d w ctx service
              ((Find_provider_key ctx in_req service)\<lparr>Environment := Service_Environment d\<rparr>)
              (Tags in_req) (ctx_string ctx CTX_REQUEST_REVISION) = (None, None)
          \<longrightarrow> (\<exists>m. Find d ctx in_req w
                     = (Return (FindFailure ErrServiceNotExists m, None), ctx, w))))
    \<and> (\<not> IsShared d (Find_provider_key ctx in_req service) \<longrightarrow>
        Find_provider d ctx in_req service
          = (SetTargetDomainProject ctx (ParseDomain ctx) (ParseProject ctx),
             (Find_provider_key ctx in_req service)\<lparr>Tenant := ParseDomainProject ctx\<rparr>)
      \<and> (Find_provider_key ctx in_req service)\<lparr>Tenant := ParseDomainProject ctx\<rparr>
          = \<lparr>Tenant = ParseDomainProject ctx, Environment = Environment_svc service,
             AppId = AppId_req in_req, ServiceName = ServiceName_req in_req,
             Alias = ServiceName_req in_req, Version_key = VersionRule in_req\<rparr>
      \<and> ParseTargetDomainProject (SetTargetDomainProject ctx (ParseDomain ctx) (ParseProject ctx))
          = ParseDomainProject ctx
      \<and> (\<forall>item w'.
            FindInstances_Get d w (SetTargetDomainProject ctx (ParseDomain ctx) (ParseProject ctx))
              service ((Find_provider_key ctx in_req service)\<lparr>Tenant := ParseDomainProject ctx\<rparr>)
              (Tags in_req) (ctx_string ctx CTX_REQUEST_REVISION) = (Some item, None)
          \<and> Find_dependency d w (SetTargetDomainProject ctx (ParseDomain ctx) (ParseProject ctx))
              in_req service
              ((Find_provider_key ctx in_req service)\<lparr>Tenant := ParseDomainProject ctx\<rparr>)
              item = Inr w'
          \<longrightarrow> Find d ctx in_req w =
                (Return (\<lparr>Response_find = CreateResponse Response_SUCCESS
                                               ''Query service instances successfully.'',
                           Instances_find =
                             (if ctx_string ctx CTX_REQUEST_REVISION = Rev item then []
                              else Instances_item item)\<rparr>, None),
                 SetContext (SetTargetDomainProject ctx (ParseDomain ctx) (ParseProject ctx))
                   CTX_RESPONSE_REVISION (Rev item), w'))
      \<and> (FindInstances_Get d w (SetTargetDomainProject ctx (ParseDomain ctx) (ParseProject ctx))
              service ((Find_provider_key ctx in_req service)\<lparr>Tenant := ParseDomainProject ctx\<rparr>)
              (Tags in_req) (ctx_string ctx CTX_REQUEST_REVISION) = (None, None)
          \<longrightarrow> (\<exists>m. Find d ctx in_req w
                     = (Return (FindFailure ErrServiceNotExists m, None),
                        SetTargetDomainProject ctx (ParseDomain ctx) (ParseProject ctx), w))))
    \<and> (Find d ctx in_req w = (Return (resp, err), ctx', w'')
        \<and> Code_resp (Response_find resp) = Response_SUCCESS \<longrightarrow>
        (\<exists>ctx1 provider item.
            Find_provider d ctx in_req service = (ctx1, provider)
          \<and> FindInstances_Get d w ctx1 service provider (Tags in_req)
                (ctx_string ctx CTX_REQUEST_REVISION) = (Some item, None)
          \<and> (Instances_find resp = Instances_item item \<or> Instances_find resp = [])
          \<and> (IsShared d (Find_provider_key ctx in_req service) \<longrightarrow>
                Environment provider = Service_Environment d
              \<and> Tenant provider = ParseTargetDomainProject ctx)))"
proof (intro conjI impI allI)
  assume sh: "IsShared d (Find_provider_key ctx in_req service)"
  show "Find_provider d ctx in_req service
          = (ctx, (Find_provider_key ctx in_req service)\<lparr>Environment := Service_Environment d\<rparr>)"
    by (rule Find_provider_shared [OF sh])
next
  show "(Find_provider_key ctx in_req service)\<lparr>Environment := Service_Environment d\<rparr>
          = \<lparr>Tenant = ParseTargetDomainProject ctx, Environment = Service_Environment d,
             AppId = AppId_req in_req, ServiceName = ServiceName_req in_req,
             Alias = ServiceName_req in_req, Version_key = VersionRule in_req\<rparr>"
    by (simp add: Find_provider_key_def)
next
  fix item w'
  assume sh: "IsShared d (Find_provider_key ctx in_req service)"
    and g: "FindInstances_Get d w ctx service
              ((Find_provider_key ctx in_req service)\<lparr>Environment := Service_Environment d\<rparr>)
              (Tags in_req) (ctx_string ctx CTX_REQUEST_REVISION) = (Some item, None)
          \<and> Find_dependency d w ctx in_req service
              ((Find_provider_key ctx in_req service)\<lparr>Environment := Service_Environment d\<rparr>)
              item = Inr w'"
  from Find_run [OF assms Find_provider_shared [OF sh] g [THEN conjunct1] g [THEN conjunct2]]
  show "Find d ctx in_req w =
                (Return (\<lparr>Response_find = CreateResponse Response_SUCCESS
                                               ''Query service instances successfully.'',
                           Instances_find =
                             (if ctx_string ctx CTX_REQUEST_REVISION = Rev item then []
                              else Instances_item item)\<rparr>, None),
                 SetContext ctx CTX_RESPONSE_REVISION (Rev item), w')" .
next
  assume sh: "IsShared d (Find_provider_key ctx in_req service)"
    and g: "FindInstances_Get d w ctx service
              ((Find_provider_key ctx in_req service)\<lparr>Environment := Service_Environment d\<rparr>)
              (Tags in_req) (ctx_string ctx CTX_REQUEST_REVISION) = (None, None)"
  from Find_absent [OF assms Find_provider_shared [OF sh] g]
  show "\<exists>m. Find d ctx in_req w = (Return (FindFailure ErrServiceNotExists m, None), ctx, w)"
    by blast
next
  assume own: "\<not> IsShared d (Find_provider_key ctx in_req service)"
  show "Find_provider d ctx in_req service
          = (SetTargetDomainProject ctx (ParseDomain ctx) (ParseProject ctx),
             (Find_provider_key ctx in_req service)\<lparr>Tenant := ParseDomainProject ctx\<rparr>)"
    by (rule Find_provider_own [OF own])
next
  show "(Find_provider_key ctx in_req service)\<lparr>Tenant := ParseDomainProject ctx\<rparr>
          = \<lparr>Tenant = ParseDomainProject ctx, Environment = Environment_svc service,
             AppId = AppId_req in_req, ServiceName = ServiceName_req in_req,
             Alias = ServiceName_req in_req, Version_key = VersionRule in_req\<rparr>"
    by (simp add: Find_provider_key_def)
next
  show "ParseTargetDomainProject (SetTargetDomainProject ctx (ParseDomain ctx) (ParseProject ctx))
          = ParseDomainProject ctx"
    by (simp add: ParseTargetDomainProject_def ParseDomainProject_def
        SetTargetDomainProject_def SetContext_def ctx_string_def)
next
  fix item w'
  assume own: "\<not> IsShared d (Find_provider_key ctx in_req service)"
    and g: "FindInstances_Get d w (SetTargetDomainProject ctx (ParseDomain ctx) (ParseProject ctx))
              service ((Find_provider_key ctx in_req service)\<lparr>Tenant := ParseDomainProject ctx\<rparr>)
              (Tags in_req) (ctx_string ctx CTX_REQUEST_REVISION) = (Some item, None)
          \<and> Find_dependency d w (SetTargetDomainProject ctx (ParseDomain ctx) (ParseProject ctx))
              in_req service
              ((Find_provider_key ctx in_req service)\<lparr>Tenant := ParseDomainProject ctx\<rparr>)
              item = Inr w'"
  from Find_run [OF assms Find_provider_own [OF own] g [THEN conjunct1] g [THEN conjunct2]]
  show "Find d ctx in_req w =
                (Return (\<lparr>Response_find = CreateResponse Response_SUCCESS
                                               ''Query service instances successfully.'',
                           Instances_find =
                             (if ctx_string ctx CTX_REQUEST_REVISION = Rev item then []
                              else Instances_item item)\<rparr>, None),
                 SetContext (SetTargetDomainProject ctx (ParseDomain ctx) (ParseProject ctx))
                   CTX_RESPONSE_REVISION (Rev item), w')" .
next
  assume own: "\<not> IsShared d (Find_provider_key ctx in_req service)"
    and g: "FindInstances_Get d w (SetTargetDomainProject ctx (ParseDomain ctx) (ParseProject ctx))
              service ((Find_provider_key ctx in_req service)\<lparr>Tenant := ParseDomainProject ctx\<rparr>)
              (Tags in_req) (ctx_string ctx CTX_REQUEST_REVISION) = (None, None)"
  from Find_absent [OF assms Find_provider_own [OF own] g]
  show "\<exists>m. Find d ctx in_req w
               = (Return (FindFailure ErrServiceNotExists m, None),
                  SetTargetDomainProject ctx (ParseDomain ctx) (ParseProject ctx), w)"
    by blast
next
  assume run: "Find d ctx in_req w = (Return (resp, err), ctx', w'')
        \<and> Code_resp (Response_find resp) = Response_SUCCESS"
  from Find_success [OF run [THEN conjunct1] run [THEN conjunct2]] assms(2)
  obtain ctx1 provider item where
    p: "Find_provider d ctx in_req service = (ctx1, provider)"
    and g: "FindInstances_Get d w ctx1 service provider (Tags in_req)
               (ctx_string ctx CTX_REQUEST_REVISION) = (Some item, None)"
    and i: "Instances_find resp
             = (if ctx_string ctx CTX_REQUEST_REVISION = Rev item then [] else Instances_item item)"
    by auto
  from i have i': "Instances_find resp = Instances_item item \<or> Instances_find resp = []"
    by (simp split: if_splits)
  have "IsShared d (Find_provider_key ctx in_req service) \<longrightarrow>
                Environment provider = Service_Environment d
              \<and> Tenant provider = ParseTargetDomainProject ctx"
    using p by (auto simp: Find_provider_def Find_provider_key_def Let_def)
  with p g i' show "\<exists>ctx1 provider item.
            Find_provider d ctx in_req service = (ctx1, provider)
          \<and> FindInstances_Get d w ctx1 service provider (Tags in_req)
                (ctx_string ctx CTX_REQUEST_REVISION) = (Some item, None)
          \<and> (Instances_find resp = Instances_item item \<or> Instances_find resp = [])
          \<and> (IsShared d (Find_provider_key ctx in_req service) \<longrightarrow>
                Environment provider = Service_Environment d
              \<and> Tenant provider = ParseTargetDomainProject ctx)"
    by blast
qed

theorem Find_shared_provider_witness:
  "Find demo_registry_deps (demo_ctx(CTX_DOMAIN \<mapsto> ''t2'')) (demo_find ''shared'') demo_store
     = (Return (\<lparr>Response_find = CreateResponse Response_SUCCESS
                                     ''Query service instances successfully.'',
                  Instances_find = [demo_instance None]\<rparr>, None),
        SetContext (demo_ctx(CTX_DOMAIN \<mapsto> ''t2'')) CTX_RESPONSE_REVISION ''R1'', demo_store)
   \<and> Find_provider demo_registry_deps (demo_ctx(CTX_DOMAIN \<mapsto> ''t2'')) (demo_find ''shared'')
        demo_service
       = (demo_ctx(CTX_DOMAIN \<mapsto> ''t2''),
          \<lparr>Tenant = ''default/default'', Environment = ''registry-env'', AppId = ''app'',
           ServiceName = ''shared'', Alias = ''shared'', Version_key = ''latest''\<rparr>)
   \<and> (\<exists>m. Find demo_registry_deps (demo_ctx(CTX_DOMAIN \<mapsto> ''t2'')) (demo_find ''svc'') demo_store
            = (Return (FindFailure ErrServiceNotExists m, None),
               SetTargetDomainProject (demo_ctx(CTX_DOMAIN \<mapsto> ''t2'')) ''t2'' ''default'',
               demo_store))
   \<and> Find_provider demo_registry_deps (demo_ctx(CTX_DOMAIN \<mapsto> ''t2'')) (demo_find ''svc'')
        demo_service
       = (SetTargetDomainProject (demo_ctx(CTX_DOMAIN \<mapsto> ''t2'')) ''t2'' ''default'',
          \<lparr>Tenant = ''t2/default'', Environment = ''production'', AppId = ''app'',
           ServiceName = ''svc'', Alias = ''svc'', Version_key = ''latest''\<rparr>)"
proof -
  let ?d = demo_registry_deps
  let ?ctx = "demo_ctx(CTX_DOMAIN \<mapsto> ''t2'')"
  let ?shared = "demo_find ''shared''"
  let ?own = "demo_find ''svc''"
  have dom: "ParseDomain ?ctx = ''t2''" "ParseProject ?ctx = ''default''"
    "ParseDomainProject ?ctx = ''t2/default''" "ParseTargetDomainProject ?ctx = ''default/default''"
    "ctx_string ?ctx CTX_REQUEST_REVISION = []"
    by (simp_all add: ParseDomain_def ParseProject_def ParseDomainProject_def
        ParseTargetDomainProject_def ctx_string_def demo_ctx_def)
  have v: "ValidateFind ?d ?shared = None" "ValidateFind ?d ?own = None"
    by (simp_all add: demo_registry_deps_def demo_deps_def)
  have c: "Find_consumer ?d demo_store ?ctx ?shared = Inr demo_service"
    "Find_consumer ?d demo_store ?ctx ?own = Inr demo_service"
    by (simp_all add: Find_consumer_def demo_registry_deps_def demo_deps_def demo_find_def Let_def)
  have sh: "IsShared ?d (Find_provider_key ?ctx ?shared demo_service)"
    by (simp add: demo_registry_deps_def demo_deps_def Find_provider_key_def demo_find_def)
  have own: "\<not> IsShared ?d (Find_provider_key ?ctx ?own demo_service)"
    by (simp add: demo_registry_deps_def demo_deps_def Find_provider_key_def demo_find_def)
  have env: "Service_Environment ?d = ''registry-env''"
    by (simp add: demo_registry_deps_def demo_deps_def)
  have key_sh: "(Find_provider_key ?ctx ?shared demo_service)\<lparr>Environment := Service_Environment ?d\<rparr>
       = \<lparr>Tenant = ''default/default'', Environment = ''registry-env'', AppId = ''app'',
           ServiceName = ''shared'', Alias = ''shared'', Version_key = ''latest''\<rparr>"
    by (simp add: Find_provider_key_def dom env demo_find_def)
  have key_own: "(Find_provider_key ?ctx ?own demo_service)\<lparr>Tenant := ParseDomainProject ?ctx\<rparr>
       = \<lparr>Tenant = ''t2/default'', Environment = ''production'', AppId = ''app'',
           ServiceName = ''svc'', Alias = ''svc'', Version_key = ''latest''\<rparr>"
    by (simp add: Find_provider_key_def dom demo_find_def demo_service_def)
  have g_sh: "FindInstances_Get ?d demo_store ?ctx demo_service
        ((Find_provider_key ?ctx ?shared demo_service)\<lparr>Environment := Service_Environment ?d\<rparr>)
        (Tags ?shared) (ctx_string ?ctx CTX_REQUEST_REVISION) = (Some demo_item, None)"
    unfolding key_sh by (simp add: demo_registry_deps_def)
  have dep_sh: "Find_dependency ?d demo_store ?ctx ?shared demo_service
        ((Find_provider_key ?ctx ?shared demo_service)\<lparr>Environment := Service_Environment ?d\<rparr>)
        demo_item = Inr demo_store"
    by (simp add: Find_dependency_def demo_registry_deps_def demo_deps_def demo_item_def)
  have g_own: "FindInstances_Get ?d demo_store
        (SetTargetDomainProject ?ctx (ParseDomain ?ctx) (ParseProject ?ctx)) demo_service
        ((Find_provider_key ?ctx ?own demo_service)\<lparr>Tenant := ParseDomainProject ?ctx\<rparr>)
        (Tags ?own) (ctx_string ?ctx CTX_REQUEST_REVISION) = (None, None)"
    unfolding key_own by (simp add: demo_registry_deps_def)
  note shared = Find_shared_provider [OF v(1) c(1), THEN conjunct1, rule_format, OF sh]
  note owned = Find_shared_provider [OF v(2) c(2), THEN conjunct2, THEN conjunct1, rule_format, OF own]
  from shared have p_sh: "Find_provider ?d ?ctx ?shared demo_service
       = (?ctx, (Find_provider_key ?ctx ?shared demo_service)\<lparr>Environment := Service_Environment ?d\<rparr>)"
    by simp
  from shared g_sh dep_sh
  have run_sh: "Find ?d ?ctx ?shared demo_store
     = (Return (\<lparr>Response_find = CreateResponse Response_SUCCESS
                                     ''Query service instances successfully.'',
                  Instances_find = (if ctx_string ?ctx CTX_REQUEST_REVISION = Rev demo_item then []
                                    else Instances_item demo_item)\<rparr>, None),
        SetContext ?ctx CTX_RESPONSE_REVISION (Rev demo_item), demo_store)"
    by blast
  from owned have p_own: "Find_provider ?d ?ctx ?own demo_service
       = (SetTargetDomainProject ?ctx (ParseDomain ?ctx) (ParseProject ?ctx),
          (Find_provider_key ?ctx ?own demo_service)\<lparr>Tenant := ParseDomainProject ?ctx\<rparr>)"
    by simp
  from owned g_own
  have run_own: "\<exists>m. Find ?d ?ctx ?own demo_store
            = (Return (FindFailure ErrServiceNotExists m, None),
               SetTargetDomainProject ?ctx (ParseDomain ?ctx) (ParseProject ?ctx), demo_store)"
    by blast
  from run_sh p_sh run_own p_own show ?thesis
    unfolding key_sh key_own by (simp add: dom demo_item_def)
qed

subsection \<open>C9: registry defaults of the health check\<close>

text \<open>
  C9: for a Register request that reaches preprocessing, a health check in the PLATFORM
  mode has its interval and retry count overwritten with the registry defaults (30 and
  3), and a missing health check is replaced by one with those defaults in the HEARTBEAT
  mode; in both cases every lease that Register asks for has a TTL of 120 seconds.
\<close>

theorem Register_default_health_check:
  assumes "Validate d in_req = None"
    and "InstanceExist d w ctx (Instance in_req) = ([], None)"
    and "HealthCheck (Instance in_req) = None
         \<or> (\<exists>hc. HealthCheck (Instance in_req) = Some hc \<and> Mode hc = CHECK_BY_PLATFORM)"
  shows "HealthCheck (fst (preProcessRegisterInstance d w ctx (Instance in_req)))
           = Some \<lparr>Mode = (if HealthCheck (Instance in_req) = None
                           then CHECK_BY_HEARTBEAT else CHECK_BY_PLATFORM),
                   Interval = REGISTRY_DEFAULT_LEASE_RENEWALINTERVAL,
                   Times = REGISTRY_DEFAULT_LEASE_RETRYTIMES\<rparr>
     \<and> REGISTRY_DEFAULT_LEASE_RENEWALINTERVAL = 30
     \<and> REGISTRY_DEFAULT_LEASE_RETRYTIMES = 3
     \<and> (\<forall>r w' evs ttl res.
           Register d ctx in_req w = (r, w', evs) \<and> EvLeaseGrant ttl res \<in> set evs \<longrightarrow> ttl = 120)"
proof -
  let ?inst = "Instance in_req"
  let ?hc' = "\<lparr>Mode = (if HealthCheck ?inst = None then CHECK_BY_HEARTBEAT else CHECK_BY_PLATFORM),
               Interval = 30 :: int32, Times = 3 :: int32\<rparr>"
  let ?stamped = "preProcessStamp d ctx ?inst"
  have pre: "preProcessHealthCheck ?stamped = Inr (?stamped\<lparr>HealthCheck := Some ?hc'\<rparr>)"
    using assms(3)
    by (auto simp: preProcessHealthCheck_missing preProcessHealthCheck_platform)
  have hc: "HealthCheck (fst (preProcessRegisterInstance d w ctx ?inst)) = Some ?hc'"
    using preProcess_result_HealthCheck [OF pre] by simp
  have ttl: "ttl = 120"
    if run: "Register d ctx in_req w = (r, w', evs)" and ev: "EvLeaseGrant ttl res \<in> set evs"
    for r w' evs ttl res
  proof (cases "preProcessRegisterInstance d w ctx ?inst")
    case (Pair inst' err)
    show ?thesis
    proof (cases err)
      case (Some e)
      with Pair run ev show ?thesis
        by (simp add: Register_fresh [OF assms(1,2)])
    next
      case None
      with Pair run have adm: "Register_admit d ctx inst' w = (r, w', evs)"
        by (simp add: Register_fresh [OF assms(1,2)])
      from hc Pair have "HealthCheck inst' = Some ?hc'" by simp
      from Register_admit_ttl [OF adm ev this] show ?thesis by simp
    qed
  qed
  have "\<forall>r w' evs ttl res.
          Register d ctx in_req w = (r, w', evs) \<and> EvLeaseGrant ttl res \<in> set evs \<longrightarrow> ttl = 120"
    using ttl by blast
  with hc show ?thesis
    by (simp add: REGISTRY_DEFAULT_LEASE_RENEWALINTERVAL_def REGISTRY_DEFAULT_LEASE_RETRYTIMES_def)
qed

theorem Register_default_health_check_witness:
  "HealthCheck (fst (preProcessRegisterInstance demo_deps demo_store demo_ctx
      (demo_instance (Some \<lparr>Mode = CHECK_BY_PLATFORM, Interval = 5, Times = 7\<rparr>))))
     = Some \<lparr>Mode = CHECK_BY_PLATFORM, Interval = 30, Times = 3\<rparr>
   \<and> EvLeaseGrant 120 (Inr 1) \<in> set (snd (snd (Register demo_deps demo_ctx
        \<lparr>Instance = demo_instance (Some \<lparr>Mode = CHECK_BY_PLATFORM, Interval = 5, Times = 7\<rparr>)\<rparr>
        demo_store)))"
proof -
  let ?hc = "\<lparr>Mode = CHECK_BY_PLATFORM, Interval = 5, Times = 7\<rparr>"
  let ?req = "\<lparr>Instance = demo_instance (Some ?hc)\<rparr>"
  have 1: "Validate demo_deps ?req = None"
    by (simp add: demo_deps_def)
  have 2: "InstanceExist demo_deps demo_store demo_ctx (Instance ?req) = ([], None)"
    by (simp add: demo_deps_def)
  have 3: "HealthCheck (Instance ?req) = None
           \<or> (\<exists>hc. HealthCheck (Instance ?req) = Some hc \<and> Mode hc = CHECK_BY_PLATFORM)"
    by (simp add: demo_instance_def)
  note main = Register_default_health_check [OF 1 2 3]
  have a: "HealthCheck (fst (preProcessRegisterInstance demo_deps demo_store demo_ctx
             (demo_instance (Some ?hc)))) = Some \<lparr>Mode = CHECK_BY_PLATFORM, Interval = 30, Times = 3\<rparr>"
    using main by (simp add: demo_instance_def)
  have "\<exists>ttl. EvLeaseGrant ttl (Inr 1) \<in> set (snd (snd (Register demo_deps demo_ctx ?req demo_store)))"
    by (simp add: Register_defs demo_defs store_defs Let_def)
  then obtain ttl where
    ev: "EvLeaseGrant ttl (Inr 1) \<in> set (snd (snd (Register demo_deps demo_ctx ?req demo_store)))"
    by blast
  have "ttl = 120"
    using main ev by (metis prod.collapse)
  with ev a show ?thesis by simp
qed

end
